theory Spec2Isabelle
  imports Main
begin

section \<open>JavaScript values\<close>

text \<open>
  The values that flow through \<^verbatim>\<open>src/async-action.js\<close>. An object is written the
  way an object literal is: the list of its property definitions in source order, where a
  later definition of a key replaces an earlier one. Functions are values too: a user's
  function is named by an identifier, and a plain action creator is the value
  \<open>ActionCreatorFn t\<close>, with the type \<open>t\<close> it was made for (the section on the middleware
  says what a call of one returns). Objects are plain data: there is no prototype chain, so
  a property read sees own properties only.
\<close>

datatype jsval =
    Undefined
  | Null
  | Bool bool
  | Num int
  | Str string
  | Arr "jsval list"
  | Obj "(string \<times> jsval) list"
  | Fun string
  | ActionCreatorFn jsval

text \<open>What the program can throw: \<^verbatim>\<open>new Error(message)\<close>, and the engine's TypeError
  for a property read on \<^verbatim>\<open>null\<close> or \<^verbatim>\<open>undefined\<close>.\<close>

datatype js_error = Error string | TypeError

text \<open>The \<^verbatim>\<open>typeof\<close> operator. As in every JavaScript engine, \<^verbatim>\<open>typeof null\<close> is
  \<^verbatim>\<open>"object"\<close>.\<close>

fun typeof :: "jsval \<Rightarrow> string" where
  "typeof Undefined = ''undefined''"
| "typeof Null = ''object''"
| "typeof (Bool b) = ''boolean''"
| "typeof (Num n) = ''number''"
| "typeof (Str s) = ''string''"
| "typeof (Arr xs) = ''object''"
| "typeof (Obj kvs) = ''object''"
| "typeof (Fun f) = ''function''"
| "typeof (ActionCreatorFn t) = ''function''"

text \<open>Truthiness, as \<^verbatim>\<open>!x\<close> tests it.\<close>

fun truthy :: "jsval \<Rightarrow> bool" where
  "truthy Undefined = False"
| "truthy Null = False"
| "truthy (Bool b) = b"
| "truthy (Num n) = (n \<noteq> 0)"
| "truthy (Str s) = (s \<noteq> [])"
| "truthy (Arr xs) = True"
| "truthy (Obj kvs) = True"
| "truthy (Fun f) = True"
| "truthy (ActionCreatorFn t) = True"

text \<open>The value of a key in a list of property definitions: the last definition wins.\<close>

definition lookup :: "(string \<times> jsval) list \<Rightarrow> string \<Rightarrow> jsval" where
  "lookup kvs k = (case map_of (rev kvs) k of None \<Rightarrow> Undefined | Some v \<Rightarrow> v)"

text \<open>Decimal index keys of arrays and strings.\<close>

fun digit :: "nat \<Rightarrow> char" where
  "digit n = char_of (48 + n)"

function string_of_nat :: "nat \<Rightarrow> string" where
  "string_of_nat n = (if n < 10 then [digit n] else string_of_nat (n div 10) @ [digit (n mod 10)])"
  by pat_completeness auto
termination
  by (relation "measure id") auto

text \<open>The own enumerable properties of a value, which is what a spread
  \<^verbatim>\<open>{...v}\<close> copies: the properties of an object, the indexed elements of an array
  or a string, nothing for the other values.\<close>

fun own_props :: "jsval \<Rightarrow> (string \<times> jsval) list" where
  "own_props (Obj kvs) = kvs"
| "own_props (Arr xs) = zip (map string_of_nat [0..<length xs]) xs"
| "own_props (Str s) = zip (map string_of_nat [0..<length s]) (map (\<lambda>c. Str [c]) s)"
| "own_props v = []"

text \<open>A property read \<^verbatim>\<open>v.k\<close> for a named (non-index) key \<open>k\<close>: a TypeError on
  \<^verbatim>\<open>null\<close> and \<^verbatim>\<open>undefined\<close>, the own property of an object, and
  \<^verbatim>\<open>undefined\<close> for a key that is not there.\<close>

definition prop_of :: "jsval \<Rightarrow> string \<Rightarrow> jsval" where
  "prop_of v k = lookup (own_props v) k"

definition get_prop :: "jsval \<Rightarrow> string \<Rightarrow> js_error + jsval" where
  "get_prop v k = (if v = Undefined \<or> v = Null then Inl TypeError else Inr (prop_of v k))"

section \<open>The imports of async-action.js\<close>

text \<open>
  \<^verbatim>\<open>src/async-action.js\<close> imports \<^verbatim>\<open>getOrCreateAsyncConstants\<close>,
  \<^verbatim>\<open>createAction\<close>, \<^verbatim>\<open>REDUX_EASY_ASYNC_NAMESPACE\<close> and \<^verbatim>\<open>ERRORS\<close> from
  modules whose text is not part of the sources at hand. They are parameters of the model:
  every theorem about \<^verbatim>\<open>createAsyncAction\<close> holds for any implementation of them.
  \<^verbatim>\<open>getOrCreateAsyncConstants\<close> may keep a cache, so it takes and returns a state
  of type \<open>'c\<close>, and it may throw; the source tests its result for truthiness, so a falsy
  result is how it reports a type from which no constant set can be derived.
  \<^verbatim>\<open>createAction\<close> returns a value for every type. The three messages of
  \<^verbatim>\<open>ERRORS\<close> are strings.
\<close>

record errors =
  ASYNC_TYPE_NOT_VALID :: string
  ACTION_NOT_OBJECT :: string
  MAKE_REQUEST_NOT_FUNCTION :: string

record 'c lib =
  getOrCreateAsyncConstants :: "'c \<Rightarrow> jsval \<Rightarrow> (js_error + jsval) \<times> 'c"
  createAction :: "jsval \<Rightarrow> jsval"
  REDUX_EASY_ASYNC_NAMESPACE :: jsval
  ERRORS :: errors

section \<open>createAsyncAction\<close>

text \<open>
  The action creator that \<^verbatim>\<open>createAsyncAction\<close> returns is a JavaScript function
  object: a closure over \<^verbatim>\<open>fn\<close> and \<^verbatim>\<open>namespace\<close>, with properties assigned to it
  by \<^verbatim>\<open>decorateActionCreator\<close>. The user's \<^verbatim>\<open>fn\<close> maps its argument list to a
  value or throws.
\<close>

record creator =
  captured_fn :: "jsval list \<Rightarrow> js_error + jsval"
  captured_namespace :: jsval
  assigned :: "(string \<times> jsval) list"

text \<open>\<^verbatim>\<open>decorateActionCreator\<close> (lines 6-18): destructure the constants, then
  \<^verbatim>\<open>_.assign\<close> the eight properties to the function object, in order.\<close>

definition decorateActionCreator ::
    "'c lib \<Rightarrow> creator \<Rightarrow> jsval \<Rightarrow> js_error + creator" where
  "decorateActionCreator L actionCreator asyncConstants =
     (if asyncConstants = Undefined \<or> asyncConstants = Null then Inl TypeError
      else
        let START_TYPE = prop_of asyncConstants ''START_TYPE'';
            SUCCESS_TYPE = prop_of asyncConstants ''SUCCESS_TYPE'';
            FAIL_TYPE = prop_of asyncConstants ''FAIL_TYPE'';
            NAME = prop_of asyncConstants ''NAME''
        in Inr (actionCreator\<lparr>assigned := assigned actionCreator @
             [(''START_TYPE'', START_TYPE),
              (''SUCCESS_TYPE'', SUCCESS_TYPE),
              (''FAIL_TYPE'', FAIL_TYPE),
              (''NAME'', NAME),
              (''start'', createAction L START_TYPE),
              (''success'', createAction L SUCCESS_TYPE),
              (''fail'', createAction L FAIL_TYPE),
              (''actionName'', NAME)]\<rparr>))"

text \<open>The body of the returned arrow function (lines 85-102), applied to the function
  object it belongs to: it reads its own properties when it is called.\<close>

definition actionCreator ::
    "'c lib \<Rightarrow> creator \<Rightarrow> jsval list \<Rightarrow> js_error + jsval" where
  "actionCreator L self args =
     (case captured_fn self args of
        Inl e \<Rightarrow> Inl e
      | Inr action \<Rightarrow>
          if typeof action \<noteq> ''object'' then Inl (Error (ACTION_NOT_OBJECT (ERRORS L)))
          else
            (case get_prop action ''makeRequest'' of
               Inl e \<Rightarrow> Inl e
             | Inr makeRequest \<Rightarrow>
                 if typeof makeRequest \<noteq> ''function''
                 then Inl (Error (MAKE_REQUEST_NOT_FUNCTION (ERRORS L)))
                 else Inr (Obj
                   ([(''type'', captured_namespace self)] @
                    own_props action @
                    [(''actionCreatorArgs'', Arr args),
                     (''actionName'', lookup (assigned self) ''actionName''),
                     (''startActionCreator'', lookup (assigned self) ''start''),
                     (''successActionCreator'', lookup (assigned self) ''success''),
                     (''failActionCreator'', lookup (assigned self) ''fail'')]))))"

text \<open>\<^verbatim>\<open>createAsyncAction\<close> (lines 75-106). The parameter \<^verbatim>\<open>options\<close> is taken at
  its documented type, an optional object: \<open>None\<close> is the omitted argument, which
  defaults to \<^verbatim>\<open>{}\<close>. The destructuring default applies when the property reads
  \<^verbatim>\<open>undefined\<close>.\<close>

definition option_namespace :: "'c lib \<Rightarrow> (string \<times> jsval) list option \<Rightarrow> jsval" where
  "option_namespace L options =
     (let opts = (case options of None \<Rightarrow> [] | Some kvs \<Rightarrow> kvs)
      in if lookup opts ''namespace'' = Undefined
         then REDUX_EASY_ASYNC_NAMESPACE L
         else lookup opts ''namespace'')"

definition createAsyncAction ::
    "'c lib \<Rightarrow> jsval \<Rightarrow> (jsval list \<Rightarrow> js_error + jsval) \<Rightarrow>
     (string \<times> jsval) list option \<Rightarrow> 'c \<Rightarrow> (js_error + creator) \<times> 'c" where
  "createAsyncAction L type fn options c =
     (let namespace = option_namespace L options
      in case getOrCreateAsyncConstants L c type of
           (Inl e, c') \<Rightarrow> (Inl e, c')
         | (Inr asyncConstants, c') \<Rightarrow>
             if \<not> truthy asyncConstants
             then (Inl (Error (''createAsyncAction(type, fn, options): '' @
                     ASYNC_TYPE_NOT_VALID (ERRORS L))), c')
             else (decorateActionCreator L
                     \<lparr>captured_fn = fn, captured_namespace = namespace, assigned = []\<rparr>
                     asyncConstants, c'))"

text \<open>\<^verbatim>\<open>createAsyncAction(type, fn, options)(...args)\<close>: create, then call.\<close>

definition create_and_call ::
    "'c lib \<Rightarrow> jsval \<Rightarrow> (jsval list \<Rightarrow> js_error + jsval) \<Rightarrow>
     (string \<times> jsval) list option \<Rightarrow> 'c \<Rightarrow> jsval list \<Rightarrow> js_error + jsval" where
  "create_and_call L type fn options c args =
     (case fst (createAsyncAction L type fn options c) of
        Inl e \<Rightarrow> Inl e
      | Inr self \<Rightarrow> actionCreator L self args)"

text \<open>The five keys that the returned arrow function writes after the spread of the
  user's object.\<close>

definition library_keys :: "string list" where
  "library_keys = [''actionCreatorArgs'', ''actionName'', ''startActionCreator'',
     ''successActionCreator'', ''failActionCreator'']"

text \<open>Reading a property of a returned value, and of a returned creator, when there is
  one: a thrown error stays the error.\<close>

definition result_prop :: "js_error + jsval \<Rightarrow> string \<Rightarrow> js_error + jsval" where
  "result_prop r k = (case r of Inl e \<Rightarrow> Inl e | Inr v \<Rightarrow> Inr (prop_of v k))"

definition creator_prop :: "js_error + creator \<Rightarrow> string \<Rightarrow> js_error + jsval" where
  "creator_prop r k = (case r of Inl e \<Rightarrow> Inl e | Inr self \<Rightarrow> Inr (lookup (assigned self) k))"

text \<open>The properties that \<^verbatim>\<open>decorateActionCreator\<close> assigns for a constant set \<open>K\<close>.\<close>

definition decorated :: "'c lib \<Rightarrow> jsval \<Rightarrow> (string \<times> jsval) list" where
  "decorated L K =
     [(''START_TYPE'', prop_of K ''START_TYPE''),
      (''SUCCESS_TYPE'', prop_of K ''SUCCESS_TYPE''),
      (''FAIL_TYPE'', prop_of K ''FAIL_TYPE''),
      (''NAME'', prop_of K ''NAME''),
      (''start'', createAction L (prop_of K ''START_TYPE'')),
      (''success'', createAction L (prop_of K ''SUCCESS_TYPE'')),
      (''fail'', createAction L (prop_of K ''FAIL_TYPE'')),
      (''actionName'', prop_of K ''NAME'')]"

text \<open>What a call of the factory shows to its caller apart from the captured \<^verbatim>\<open>fn\<close>:
  the error, or the properties and the namespace of the creator, and the generator's state.\<close>

definition outcome :: "(js_error + creator) \<times> 'c \<Rightarrow> (js_error + (string \<times> jsval) list \<times> jsval) \<times> 'c" where
  "outcome r = (case r of (Inl e, c) \<Rightarrow> (Inl e, c)
                | (Inr self, c) \<Rightarrow> (Inr (assigned self, captured_namespace self), c))"

subsection \<open>Sample imports and sample user functions\<close>

text \<open>
  A concrete instance of the imports, to evaluate the theorems at concrete inputs. The
  constants have sample texts. The sample generator has no cache (its state is \<open>unit\<close>):
  it derives the constants of a base type string, returns an object as it is (the
  documented second form of \<^verbatim>\<open>type\<close>), and \<^verbatim>\<open>undefined\<close> for anything else.
\<close>

definition sample_constants :: "string \<Rightarrow> jsval" where
  "sample_constants base = Obj
     [(''START_TYPE'', Str (base @ ''_START'')),
      (''SUCCESS_TYPE'', Str (base @ ''_SUCCESS'')),
      (''FAIL_TYPE'', Str (base @ ''_FAIL'')),
      (''NAME'', Str base)]"

fun sample_generator :: "unit \<Rightarrow> jsval \<Rightarrow> (js_error + jsval) \<times> unit" where
  "sample_generator c (Str base) = (Inr (sample_constants base), c)"
| "sample_generator c (Obj kvs) = (Inr (Obj kvs), c)"
| "sample_generator c v = (Inr Undefined, c)"

definition sample_lib :: "unit lib" where
  "sample_lib =
     \<lparr>getOrCreateAsyncConstants = sample_generator,
      createAction = ActionCreatorFn,
      REDUX_EASY_ASYNC_NAMESPACE = Str ''REDUX_EASY_ASYNC_NAMESPACE'',
      ERRORS = \<lparr>ASYNC_TYPE_NOT_VALID = ''type is not valid'',
                ACTION_NOT_OBJECT = ''action is not an object'',
                MAKE_REQUEST_NOT_FUNCTION = ''makeRequest is not a function''\<rparr>\<rparr>"

text \<open>\<^verbatim>\<open>() => ({ makeRequest: fetchPosts })\<close>\<close>

definition fn_plain :: "jsval list \<Rightarrow> js_error + jsval" where
  "fn_plain args = Inr (Obj [(''makeRequest'', Fun ''fetchPosts'')])"

text \<open>\<^verbatim>\<open>() => null\<close>\<close>

definition fn_null :: "jsval list \<Rightarrow> js_error + jsval" where
  "fn_null args = Inr Null"

text \<open>\<^verbatim>\<open>() => ({ type: 'MINE', makeRequest: fetchPosts })\<close>\<close>

definition fn_typed :: "jsval list \<Rightarrow> js_error + jsval" where
  "fn_typed args = Inr (Obj [(''type'', Str ''MINE''), (''makeRequest'', Fun ''fetchPosts'')])"

text \<open>A user's object that defines every key the library writes:
  \<^verbatim>\<open>() => ({ type: 'MINE', makeRequest: fetchPosts, actionCreatorArgs: 1, actionName: 'mine',
  startActionCreator: 2, successActionCreator: 3, failActionCreator: 4 })\<close>\<close>

definition fn_clash :: "jsval list \<Rightarrow> js_error + jsval" where
  "fn_clash args = Inr (Obj
     [(''type'', Str ''MINE''),
      (''makeRequest'', Fun ''fetchPosts''),
      (''actionCreatorArgs'', Num 1),
      (''actionName'', Str ''mine''),
      (''startActionCreator'', Num 2),
      (''successActionCreator'', Num 3),
      (''failActionCreator'', Num 4)])"

text \<open>A function whose result depends on its arguments:
  \<^verbatim>\<open>(x) => x ? { makeRequest: fetchPosts } : 7\<close>\<close>

definition fn_sometimes :: "jsval list \<Rightarrow> js_error + jsval" where
  "fn_sometimes args =
     (if truthy (case args of [] \<Rightarrow> Undefined | x # _ \<Rightarrow> x)
      then Inr (Obj [(''makeRequest'', Fun ''fetchPosts'')])
      else Inr (Num 7))"

text \<open>\<^verbatim>\<open>() => ({})\<close>\<close>

definition fn_empty :: "jsval list \<Rightarrow> js_error + jsval" where
  "fn_empty args = Inr (Obj [])"

section \<open>The constant generator\<close>

text \<open>
  Identity of objects is the identity of references: the generator allocates each constant
  set in a heap and returns its reference, an index into the heap. Its cache maps a base
  type to the reference of its constant set.
\<close>

record generator_state =
  heap :: "jsval list"
  cache :: "(string \<times> nat) list"

definition empty_generator :: generator_state where
  "empty_generator = \<lparr>heap = [], cache = []\<rparr>"

text \<open>Modelled from the spec: the constant set of a base type, which the module
  \<^verbatim>\<open>async-constants\<close> derives (\<^verbatim>\<open>async-action.js\<close> imports the module; its text is
  not in the sources). The spec: "given a base type string, derives \<^verbatim>\<open><TYPE>_START\<close>,
  \<^verbatim>\<open><TYPE>_SUCCESS\<close>, \<^verbatim>\<open><TYPE>_FAIL\<close> and a display name". The spec does not say how
  the display name is derived, so that is the parameter \<open>display\<close>.\<close>

definition derive_constants :: "(string \<Rightarrow> string) \<Rightarrow> string \<Rightarrow> jsval" where
  "derive_constants display base = Obj
     [(''START_TYPE'', Str (base @ ''_START'')),
      (''SUCCESS_TYPE'', Str (base @ ''_SUCCESS'')),
      (''FAIL_TYPE'', Str (base @ ''_FAIL'')),
      (''NAME'', Str (display base))]"

text \<open>Modelled from the spec: the constant generator of the module \<^verbatim>\<open>async-constants\<close>,
  whose text is not in the sources. The spec: it "memoizes by base type so repeated calls
  return the identical triple", and the constant set is "derived deterministically and
  cached per base type; immutable once created". A base type in the cache gets the cached
  reference and the state stays as it is; any other gets a new object, which is cached.\<close>

definition constant_generator ::
    "(string \<Rightarrow> string) \<Rightarrow> generator_state \<Rightarrow> string \<Rightarrow> nat \<times> generator_state" where
  "constant_generator display s base =
     (case map_of (cache s) base of
        Some r \<Rightarrow> (r, s)
      | None \<Rightarrow>
          (length (heap s),
           \<lparr>heap = heap s @ [derive_constants display base],
            cache = (base, length (heap s)) # cache s\<rparr>))"

text \<open>Further calls of the generator, one per base type of the list.\<close>

fun generator_calls ::
    "(string \<Rightarrow> string) \<Rightarrow> generator_state \<Rightarrow> string list \<Rightarrow> generator_state" where
  "generator_calls display s [] = s"
| "generator_calls display s (b # bs) =
     generator_calls display (snd (constant_generator display s b)) bs"

text \<open>The object a reference points to.\<close>

definition deref :: "generator_state \<Rightarrow> nat \<Rightarrow> jsval option" where
  "deref s r = (if r < length (heap s) then Some (heap s ! r) else None)"

text \<open>The cache holds references into the heap, each to the constants of its base type.\<close>

definition cache_ok :: "(string \<Rightarrow> string) \<Rightarrow> generator_state \<Rightarrow> bool" where
  "cache_ok display s =
     list_all (\<lambda>(b, r). deref s r = Some (derive_constants display b)) (cache s)"

section \<open>The lifecycle middleware\<close>

text \<open>
  The modules \<^verbatim>\<open>middleware\<close> and \<^verbatim>\<open>action\<close>, which the index exports as
  \<^verbatim>\<open>createAsyncMiddleware\<close> and \<^verbatim>\<open>createAction\<close>, are not in the sources. The
  definitions of this section follow the spec, and the comment of \<^verbatim>\<open>createAsyncAction\<close>
  in \<^verbatim>\<open>src/async-action.js\<close>, which names the options the middleware reads and the meta
  every action carries.

  The request's promise is settled by the environment: a run is a list of events, each a
  dispatch of an action or the settlement of the request with a given identifier, with the
  time at which it happens. User functions are pure and total; \<open>app\<close> interprets their
  names. The store holds the state, the actions that reached the reducers, oldest first,
  the next request identifier, and the requests in flight, each with its identifier, its
  async action and its start time.
\<close>

record env =
  app :: "string \<Rightarrow> jsval list \<Rightarrow> jsval"
  reducer :: "jsval \<Rightarrow> jsval \<Rightarrow> jsval"
  namespace :: jsval

record store =
  state :: jsval
  dispatched :: "jsval list"
  next_asyncID :: nat
  in_flight :: "(nat \<times> jsval \<times> nat) list"

datatype settlement = Resolved jsval | Rejected jsval

datatype event = Dispatch jsval nat | Settle nat settlement nat

definition arg :: "jsval list \<Rightarrow> nat \<Rightarrow> jsval" where
  "arg args i = (if i < length args then args ! i else Undefined)"

text \<open>Modelled from the spec: the plain action-creator factory \<^verbatim>\<open>createAction\<close> (module
  \<^verbatim>\<open>action\<close>, not in the sources), which "wraps a type string into a function" that
  returns an action object, \<^verbatim>\<open>{ type, payload?, meta? }\<close>. The creator made for the type
  \<open>t\<close> is the value \<open>ActionCreatorFn t\<close>; called with a payload and a meta it returns the
  action of that type. A user's function is applied by \<open>app\<close>. A value that is not a
  function cannot be called: \<open>call\<close> throws the engine's TypeError.\<close>

fun apply_fn :: "env \<Rightarrow> jsval \<Rightarrow> jsval list \<Rightarrow> jsval" where
  "apply_fn E (Fun f) args = app E f args"
| "apply_fn E (ActionCreatorFn t) args =
     Obj [(''type'', t), (''payload'', arg args 0), (''meta'', arg args 1)]"
| "apply_fn E v args = Undefined"

definition call :: "env \<Rightarrow> jsval \<Rightarrow> jsval list \<Rightarrow> js_error + jsval" where
  "call E f args = (if typeof f = ''function'' then Inr (apply_fn E f args) else Inl TypeError)"

text \<open>An action that reaches the reducers: the state is reduced and the action recorded.\<close>

definition reduce :: "env \<Rightarrow> store \<Rightarrow> jsval \<Rightarrow> store" where
  "reduce E st a = st\<lparr>state := reducer E (state st) a, dispatched := dispatched st @ [a]\<rparr>"

text \<open>Modelled from the spec: the middleware "optionally checks a predicate against current
  state to skip duplicate/unnecessary requests". The request is skipped when
  \<^verbatim>\<open>shouldMakeRequest\<close> is a function and returns a falsy value on the current state.\<close>

definition skips :: "env \<Rightarrow> store \<Rightarrow> jsval \<Rightarrow> bool" where
  "skips E st a =
     (typeof (prop_of a ''shouldMakeRequest'') = ''function'' \<and>
      \<not> truthy (apply_fn E (prop_of a ''shouldMakeRequest'') [state st]))"

text \<open>Modelled from the spec: the payloads, "response/error payload". By the comment of
  \<^verbatim>\<open>createAsyncAction\<close> the return value of \<^verbatim>\<open>parseStart\<close>, \<^verbatim>\<open>parseSuccess\<close> and
  \<^verbatim>\<open>parseFail\<close> becomes the payload of the start, success and fail action, each is
  optional, and by default the response is not modified.\<close>

definition parse :: "env \<Rightarrow> jsval \<Rightarrow> string \<Rightarrow> jsval \<Rightarrow> jsval" where
  "parse E a key v =
     (if typeof (prop_of a key) = ''function'' then apply_fn E (prop_of a key) [v] else v)"

definition parseStart :: "env \<Rightarrow> jsval \<Rightarrow> jsval" where
  "parseStart E a =
     (if typeof (prop_of a ''parseStart'') = ''function''
      then apply_fn E (prop_of a ''parseStart'') [] else Undefined)"

text \<open>Modelled from the spec: the "timing and identity metadata". By the comment of
  \<^verbatim>\<open>createAsyncAction\<close> every action has the user's meta and \<^verbatim>\<open>actionName\<close>,
  \<^verbatim>\<open>asyncType\<close>, \<^verbatim>\<open>requestStartTime\<close> and \<^verbatim>\<open>asyncID\<close>; the success and the fail
  action also have \<^verbatim>\<open>requestDuration\<close> and \<^verbatim>\<open>resp\<close>.\<close>

definition start_meta :: "jsval \<Rightarrow> nat \<Rightarrow> nat \<Rightarrow> jsval" where
  "start_meta a asyncID t0 = Obj (own_props (prop_of a ''meta'') @
     [(''actionName'', prop_of a ''actionName''),
      (''asyncType'', Str ''start''),
      (''requestStartTime'', Num (int t0)),
      (''asyncID'', Num (int asyncID))])"

definition end_meta :: "jsval \<Rightarrow> string \<Rightarrow> nat \<Rightarrow> nat \<Rightarrow> nat \<Rightarrow> jsval \<Rightarrow> jsval" where
  "end_meta a asyncType asyncID t0 t1 resp = Obj (own_props (prop_of a ''meta'') @
     [(''actionName'', prop_of a ''actionName''),
      (''asyncType'', Str asyncType),
      (''requestStartTime'', Num (int t0)),
      (''asyncID'', Num (int asyncID)),
      (''requestDuration'', Num (int t1 - int t0)),
      (''resp'', resp)])"

text \<open>Modelled from the spec: the middleware at a dispatch. It "intercepts actions carrying
  the reserved namespace, optionally checks a predicate against current state to skip
  duplicate/unnecessary requests, assigns a unique request identifier and start timestamp,
  dispatches the "start" action, invokes the request function". An action without the
  namespace goes on to the reducers. An async action whose predicate says no is dropped.
  Otherwise the request gets the next identifier and the time as its start time, the start
  action is dispatched, and the request is in flight.\<close>

definition on_dispatch :: "env \<Rightarrow> store \<Rightarrow> jsval \<Rightarrow> nat \<Rightarrow> js_error + store" where
  "on_dispatch E st a now =
     (if prop_of a ''type'' \<noteq> namespace E then Inr (reduce E st a)
      else if skips E st a then Inr st
      else
        (case call E (prop_of a ''startActionCreator'')
                [parseStart E a, start_meta a (next_asyncID st) now] of
           Inl e \<Rightarrow> Inl e
         | Inr start \<Rightarrow>
             Inr ((reduce E st start)
                   \<lparr>next_asyncID := Suc (next_asyncID st),
                    in_flight := in_flight st @ [(next_asyncID st, a, now)]\<rparr>)))"

text \<open>Modelled from the spec: the middleware at the settlement of the request \<open>asyncID\<close>.
  It "on settlement dispatches "success" or "fail" with duration and response/error
  payload", and request failures "are not thrown; they are captured and re-dispatched as
  "fail" actions carrying the rejection value as payload". The success action for a resolved
  promise, the fail action for a rejected one, each with the parsed value as payload; the
  request is no longer in flight.\<close>

definition on_settle :: "env \<Rightarrow> store \<Rightarrow> nat \<Rightarrow> settlement \<Rightarrow> nat \<Rightarrow> js_error + store" where
  "on_settle E st asyncID s now =
     (case map_of (in_flight st) asyncID of
        None \<Rightarrow> Inr st
      | Some (a, t0) \<Rightarrow>
          (case (case s of
                   Resolved resp \<Rightarrow>
                     call E (prop_of a ''successActionCreator'')
                       [parse E a ''parseSuccess'' resp, end_meta a ''success'' asyncID t0 now resp]
                 | Rejected err \<Rightarrow>
                     call E (prop_of a ''failActionCreator'')
                       [parse E a ''parseFail'' err, end_meta a ''fail'' asyncID t0 now err]) of
             Inl e \<Rightarrow> Inl e
           | Inr settled \<Rightarrow>
               Inr ((reduce E st settled)
                     \<lparr>in_flight := filter (\<lambda>(i, r). i \<noteq> asyncID) (in_flight st)\<rparr>)))"

fun step :: "env \<Rightarrow> store \<Rightarrow> event \<Rightarrow> js_error + store" where
  "step E st (Dispatch a now) = on_dispatch E st a now"
| "step E st (Settle asyncID s now) = on_settle E st asyncID s now"

fun run :: "env \<Rightarrow> store \<Rightarrow> event list \<Rightarrow> js_error + store" where
  "run E st [] = Inr st"
| "run E st (ev # evs) = (case step E st ev of Inl e \<Rightarrow> Inl e | Inr st' \<Rightarrow> run E st' evs)"

text \<open>An async action as the creators of \<^verbatim>\<open>createAsyncAction\<close> build it: tagged with the
  namespace and carrying three plain action creators.\<close>

fun is_action_creator :: "jsval \<Rightarrow> bool" where
  "is_action_creator (ActionCreatorFn t) = True"
| "is_action_creator v = False"

definition async_action :: "env \<Rightarrow> jsval \<Rightarrow> bool" where
  "async_action E a =
     (prop_of a ''type'' = namespace E \<and>
      is_action_creator (prop_of a ''startActionCreator'') \<and>
      is_action_creator (prop_of a ''successActionCreator'') \<and>
      is_action_creator (prop_of a ''failActionCreator''))"

text \<open>Request identifiers are unique: those in flight are below the next one.\<close>

definition ids_fresh :: "store \<Rightarrow> bool" where
  "ids_fresh st = list_all (\<lambda>(i, r). i < next_asyncID st) (in_flight st)"

text \<open>No event of the list settles the request \<open>asyncID\<close>.\<close>

fun settles :: "nat \<Rightarrow> event \<Rightarrow> bool" where
  "settles asyncID (Settle i s now) = (i = asyncID)"
| "settles asyncID (Dispatch a now) = False"

text \<open>The three actions of a request, and the store after its start.\<close>

definition start_action :: "env \<Rightarrow> jsval \<Rightarrow> nat \<Rightarrow> nat \<Rightarrow> jsval" where
  "start_action E a asyncID t0 =
     apply_fn E (prop_of a ''startActionCreator'') [parseStart E a, start_meta a asyncID t0]"

definition success_action :: "env \<Rightarrow> jsval \<Rightarrow> nat \<Rightarrow> nat \<Rightarrow> nat \<Rightarrow> jsval \<Rightarrow> jsval" where
  "success_action E a asyncID t0 t1 resp =
     apply_fn E (prop_of a ''successActionCreator'')
       [parse E a ''parseSuccess'' resp, end_meta a ''success'' asyncID t0 t1 resp]"

definition fail_action :: "env \<Rightarrow> jsval \<Rightarrow> nat \<Rightarrow> nat \<Rightarrow> nat \<Rightarrow> jsval \<Rightarrow> jsval" where
  "fail_action E a asyncID t0 t1 err =
     apply_fn E (prop_of a ''failActionCreator'')
       [parse E a ''parseFail'' err, end_meta a ''fail'' asyncID t0 t1 err]"

definition started :: "env \<Rightarrow> store \<Rightarrow> jsval \<Rightarrow> nat \<Rightarrow> store" where
  "started E st a t0 =
     (reduce E st (start_action E a (next_asyncID st) t0))
       \<lparr>next_asyncID := Suc (next_asyncID st),
        in_flight := in_flight st @ [(next_asyncID st, a, t0)]\<rparr>"

text \<open>The type a plain action creator was made for.\<close>

fun creator_type :: "jsval \<Rightarrow> jsval" where
  "creator_type (ActionCreatorFn t) = t"
| "creator_type v = Undefined"

subsection \<open>A sample store and sample actions\<close>

text \<open>User functions of the samples: \<^verbatim>\<open>never = state => false\<close>,
  \<^verbatim>\<open>always = state => true\<close>, \<^verbatim>\<open>wrap = resp => ({ data: resp })\<close>.\<close>

definition sample_app :: "string \<Rightarrow> jsval list \<Rightarrow> jsval" where
  "sample_app f args =
     (if f = ''never'' then Bool False
      else if f = ''always'' then Bool True
      else if f = ''wrap'' then Obj [(''data'', arg args 0)]
      else Undefined)"

text \<open>A reducer that keeps the type of the last action.\<close>

definition sample_reducer :: "jsval \<Rightarrow> jsval \<Rightarrow> jsval" where
  "sample_reducer s a = prop_of a ''type''"

definition sample_env :: env where
  "sample_env = \<lparr>app = sample_app, reducer = sample_reducer,
     namespace = Str ''REDUX_EASY_ASYNC_NAMESPACE''\<rparr>"

definition init_store :: store where
  "init_store = \<lparr>state = Undefined, dispatched = [], next_asyncID = 0, in_flight = []\<rparr>"

text \<open>The action that the creator of \<^verbatim>\<open>createAsyncAction('GET_POSTS', () => ({ makeRequest:
  fetchPosts, parseSuccess: wrap, parseFail: wrap, shouldMakeRequest: p }))\<close> returns, for
  a predicate \<open>p\<close>.\<close>

definition get_posts :: "string \<Rightarrow> jsval" where
  "get_posts p = Obj
     [(''type'', Str ''REDUX_EASY_ASYNC_NAMESPACE''),
      (''makeRequest'', Fun ''fetchPosts''),
      (''parseSuccess'', Fun ''wrap''),
      (''parseFail'', Fun ''wrap''),
      (''shouldMakeRequest'', Fun p),
      (''actionCreatorArgs'', Arr []),
      (''actionName'', Str ''GET_POSTS''),
      (''startActionCreator'', ActionCreatorFn (Str ''GET_POSTS_START'')),
      (''successActionCreator'', ActionCreatorFn (Str ''GET_POSTS_SUCCESS'')),
      (''failActionCreator'', ActionCreatorFn (Str ''GET_POSTS_FAIL''))]"

definition fn_get_posts :: "string \<Rightarrow> jsval list \<Rightarrow> js_error + jsval" where
  "fn_get_posts p args = Inr (Obj
     [(''makeRequest'', Fun ''fetchPosts''),
      (''parseSuccess'', Fun ''wrap''),
      (''parseFail'', Fun ''wrap''),
      (''shouldMakeRequest'', Fun p)])"

text \<open>An action of the application's own, which the middleware passes on.\<close>

definition plain_action :: jsval where
  "plain_action = Obj [(''type'', Str ''LOGOUT'')]"

section \<open>Properties of createAsyncAction\<close>

subsection \<open>Property lists\<close>

lemma lookup_append:
  "lookup (xs @ ys) k = (if k \<in> fst ` set ys then lookup ys k else lookup xs k)"
proof (cases "map_of (rev ys) k")
  case None
  then have "k \<notin> fst ` set ys" by (simp add: map_of_eq_None_iff)
  with None show ?thesis by (simp add: lookup_def map_add_def)
next
  case (Some v)
  then have "k \<in> fst ` set ys"
    using map_of_eq_None_iff [of "rev ys" k] by auto
  with Some show ?thesis by (simp add: lookup_def map_add_def)
qed

lemma lookup_Nil: "lookup [] k = Undefined"
  by (simp add: lookup_def)

lemma lookup_Cons:
  "lookup ((k', v) # xs) k =
     (if k \<in> fst ` set xs then lookup xs k else if k = k' then v else Undefined)"
  using lookup_append [of "[(k', v)]" xs k] by (simp add: lookup_def)

lemma truthy_not_nullish: "truthy v \<Longrightarrow> v \<noteq> Undefined \<and> v \<noteq> Null"
  by (cases v) auto

subsection \<open>The factory and the creator, case by case\<close>

lemma createAsyncAction_valid:
  assumes "fst (getOrCreateAsyncConstants L c type) = Inr K" and "truthy K"
  shows "fst (createAsyncAction L type fn options c) =
           Inr \<lparr>captured_fn = fn, captured_namespace = option_namespace L options,
                assigned = decorated L K\<rparr>"
  using assms truthy_not_nullish [OF assms(2)]
  by (cases "getOrCreateAsyncConstants L c type")
     (simp add: createAsyncAction_def decorateActionCreator_def decorated_def Let_def)

lemma createAsyncAction_invalid:
  assumes "fst (getOrCreateAsyncConstants L c type) = Inr K" and "\<not> truthy K"
  shows "fst (createAsyncAction L type fn options c) =
           Inl (Error (''createAsyncAction(type, fn, options): '' @ ASYNC_TYPE_NOT_VALID (ERRORS L)))"
  using assms
  by (cases "getOrCreateAsyncConstants L c type") (simp add: createAsyncAction_def)

lemma actionCreator_valid:
  assumes "captured_fn self args = Inr (Obj kvs)"
    and "typeof (lookup kvs ''makeRequest'') = ''function''"
  shows "actionCreator L self args = Inr (Obj
           ([(''type'', captured_namespace self)] @ kvs @
            [(''actionCreatorArgs'', Arr args),
             (''actionName'', lookup (assigned self) ''actionName''),
             (''startActionCreator'', lookup (assigned self) ''start''),
             (''successActionCreator'', lookup (assigned self) ''success''),
             (''failActionCreator'', lookup (assigned self) ''fail'')]))"
  using assms by (simp add: actionCreator_def get_prop_def prop_of_def)

lemma actionCreator_not_object:
  assumes "captured_fn self args = Inr v" and "typeof v \<noteq> ''object''"
  shows "actionCreator L self args = Inl (Error (ACTION_NOT_OBJECT (ERRORS L)))"
  using assms by (simp add: actionCreator_def)

lemma actionCreator_null:
  assumes "captured_fn self args = Inr Null"
  shows "actionCreator L self args = Inl TypeError"
  using assms by (simp add: actionCreator_def get_prop_def)

lemma actionCreator_no_makeRequest:
  assumes "captured_fn self args = Inr v" and "typeof v = ''object''" and "v \<noteq> Null"
    and "typeof (prop_of v ''makeRequest'') \<noteq> ''function''"
  shows "actionCreator L self args = Inl (Error (MAKE_REQUEST_NOT_FUNCTION (ERRORS L)))"
  using assms by (cases v) (simp_all add: actionCreator_def get_prop_def)

text \<open>An exception of \<^verbatim>\<open>fn\<close> passes through the creator.\<close>

lemma actionCreator_throws:
  assumes "captured_fn self args = Inl e"
  shows "actionCreator L self args = Inl e"
  using assms by (simp add: actionCreator_def)

lemma create_and_call_valid:
  assumes "fst (getOrCreateAsyncConstants L c type) = Inr K" and "truthy K"
    and "fn args = Inr (Obj kvs)" and "typeof (lookup kvs ''makeRequest'') = ''function''"
  shows "create_and_call L type fn options c args = Inr (Obj
           ([(''type'', option_namespace L options)] @ kvs @
            [(''actionCreatorArgs'', Arr args),
             (''actionName'', prop_of K ''NAME''),
             (''startActionCreator'', createAction L (prop_of K ''START_TYPE'')),
             (''successActionCreator'', createAction L (prop_of K ''SUCCESS_TYPE'')),
             (''failActionCreator'', createAction L (prop_of K ''FAIL_TYPE''))]))"
proof -
  let ?self = "\<lparr>captured_fn = fn, captured_namespace = option_namespace L options,
                assigned = decorated L K\<rparr>"
  have "create_and_call L type fn options c args = actionCreator L ?self args"
    by (simp add: create_and_call_def createAsyncAction_valid [OF assms(1,2)])
  also have "\<dots> = Inr (Obj
           ([(''type'', captured_namespace ?self)] @ kvs @
            [(''actionCreatorArgs'', Arr args),
             (''actionName'', lookup (assigned ?self) ''actionName''),
             (''startActionCreator'', lookup (assigned ?self) ''start''),
             (''successActionCreator'', lookup (assigned ?self) ''success''),
             (''failActionCreator'', lookup (assigned ?self) ''fail'')]))"
    by (rule actionCreator_valid) (simp_all add: assms)
  finally show ?thesis
    by (simp add: decorated_def lookup_def)
qed

lemma result_prop_Inr: "result_prop (Inr v) k = Inr (prop_of v k)"
  by (simp add: result_prop_def)

lemma prop_of_Obj: "prop_of (Obj kvs) k = lookup kvs k"
  by (simp add: prop_of_def)

lemma option_namespace_cases:
  "option_namespace L options =
     (case options of
        None \<Rightarrow> REDUX_EASY_ASYNC_NAMESPACE L
      | Some opts \<Rightarrow>
          if lookup opts ''namespace'' = Undefined then REDUX_EASY_ASYNC_NAMESPACE L
          else lookup opts ''namespace'')"
  by (simp add: option_namespace_def lookup_Nil split: option.splits)

subsection \<open>The sample inputs\<close>

lemma sample_valid:
  "fst (getOrCreateAsyncConstants sample_lib () (Str ''GET_POSTS'')) = Inr (sample_constants ''GET_POSTS'')"
  "truthy (sample_constants ''GET_POSTS'')"
  by (simp_all add: sample_lib_def sample_constants_def)

lemma sample_invalid:
  "fst (getOrCreateAsyncConstants sample_lib () (Num 3)) = Inr Undefined"
  "\<not> truthy Undefined"
  by (simp_all add: sample_lib_def)

lemma fn_clash_makeRequest:
  "typeof (lookup [(''type'', Str ''MINE''),
      (''makeRequest'', Fun ''fetchPosts''),
      (''actionCreatorArgs'', Num 1),
      (''actionName'', Str ''mine''),
      (''startActionCreator'', Num 2),
      (''successActionCreator'', Num 3),
      (''failActionCreator'', Num 4)] ''makeRequest'') = ''function''"
  by (simp add: lookup_def)

lemma fn_plain_makeRequest:
  "typeof (lookup [(''makeRequest'', Fun ''fetchPosts'')] ''makeRequest'') = ''function''"
  by (simp add: lookup_def)

lemma outcome_independent:
  "outcome (createAsyncAction L type fn options c) = outcome (createAsyncAction L type fn' options c)"
  by (simp add: outcome_def createAsyncAction_def decorateActionCreator_def Let_def
      split: prod.splits sum.splits)

subsection \<open>The action object\<close>

text \<open>
  C4, amended. For a type with a constant set \<open>K\<close>, a function \<open>fn\<close> that returns an
  object with a \<^verbatim>\<open>makeRequest\<close> function, and arguments \<open>args\<close>, the creator
  returned by \<^verbatim>\<open>createAsyncAction(type, fn)\<close> applied to \<open>args\<close> returns an object
  that contains every field of \<^verbatim>\<open>fn(...args)\<close> whose key is not one of the five keys the
  library writes, together with \<^verbatim>\<open>actionCreatorArgs\<close> equal to \<open>args\<close>,
  \<^verbatim>\<open>actionName\<close> equal to the constant set's \<^verbatim>\<open>NAME\<close>, and the start, success and
  fail action creators of \<^verbatim>\<open>START_TYPE\<close>, \<^verbatim>\<open>SUCCESS_TYPE\<close> and \<^verbatim>\<open>FAIL_TYPE\<close>;
  the same three creators and the four constants are properties of the creator itself.
\<close>

theorem action_fields:
  assumes "fst (getOrCreateAsyncConstants L c type) = Inr K" and "truthy K"
    and "fn args = Inr (Obj kvs)" and "typeof (lookup kvs ''makeRequest'') = ''function''"
  shows "(\<forall>k \<in> fst ` set kvs. k \<notin> set library_keys \<longrightarrow>
            result_prop (create_and_call L type fn options c args) k = Inr (lookup kvs k))
       \<and> result_prop (create_and_call L type fn options c args) ''actionCreatorArgs'' = Inr (Arr args)
       \<and> result_prop (create_and_call L type fn options c args) ''actionName'' = Inr (prop_of K ''NAME'')
       \<and> result_prop (create_and_call L type fn options c args) ''startActionCreator''
            = Inr (createAction L (prop_of K ''START_TYPE''))
       \<and> result_prop (create_and_call L type fn options c args) ''successActionCreator''
            = Inr (createAction L (prop_of K ''SUCCESS_TYPE''))
       \<and> result_prop (create_and_call L type fn options c args) ''failActionCreator''
            = Inr (createAction L (prop_of K ''FAIL_TYPE''))
       \<and> creator_prop (fst (createAsyncAction L type fn options c)) ''start''
            = Inr (createAction L (prop_of K ''START_TYPE''))
       \<and> creator_prop (fst (createAsyncAction L type fn options c)) ''success''
            = Inr (createAction L (prop_of K ''SUCCESS_TYPE''))
       \<and> creator_prop (fst (createAsyncAction L type fn options c)) ''fail''
            = Inr (createAction L (prop_of K ''FAIL_TYPE''))
       \<and> creator_prop (fst (createAsyncAction L type fn options c)) ''START_TYPE''
            = Inr (prop_of K ''START_TYPE'')
       \<and> creator_prop (fst (createAsyncAction L type fn options c)) ''SUCCESS_TYPE''
            = Inr (prop_of K ''SUCCESS_TYPE'')
       \<and> creator_prop (fst (createAsyncAction L type fn options c)) ''FAIL_TYPE''
            = Inr (prop_of K ''FAIL_TYPE'')
       \<and> creator_prop (fst (createAsyncAction L type fn options c)) ''NAME''
            = Inr (prop_of K ''NAME'')"
proof -
  have r: "create_and_call L type fn options c args = Inr (Obj
           ([(''type'', option_namespace L options)] @ kvs @
            [(''actionCreatorArgs'', Arr args),
             (''actionName'', prop_of K ''NAME''),
             (''startActionCreator'', createAction L (prop_of K ''START_TYPE'')),
             (''successActionCreator'', createAction L (prop_of K ''SUCCESS_TYPE'')),
             (''failActionCreator'', createAction L (prop_of K ''FAIL_TYPE''))]))"
    using assms by (rule create_and_call_valid)
  have s: "fst (createAsyncAction L type fn options c) =
           Inr \<lparr>captured_fn = fn, captured_namespace = option_namespace L options,
                assigned = decorated L K\<rparr>"
    using assms(1,2) by (rule createAsyncAction_valid)
  have user: "\<forall>k \<in> fst ` set kvs. k \<notin> set library_keys \<longrightarrow>
            result_prop (create_and_call L type fn options c args) k = Inr (lookup kvs k)"
    by (auto simp: r result_prop_Inr prop_of_Obj lookup_append lookup_Cons library_keys_def)
  have lib: "result_prop (create_and_call L type fn options c args) ''actionCreatorArgs'' = Inr (Arr args)"
    "result_prop (create_and_call L type fn options c args) ''actionName'' = Inr (prop_of K ''NAME'')"
    "result_prop (create_and_call L type fn options c args) ''startActionCreator''
            = Inr (createAction L (prop_of K ''START_TYPE''))"
    "result_prop (create_and_call L type fn options c args) ''successActionCreator''
            = Inr (createAction L (prop_of K ''SUCCESS_TYPE''))"
    "result_prop (create_and_call L type fn options c args) ''failActionCreator''
            = Inr (createAction L (prop_of K ''FAIL_TYPE''))"
    by (simp_all add: r result_prop_Inr prop_of_Obj lookup_append lookup_Cons)
  have att: "creator_prop (fst (createAsyncAction L type fn options c)) ''start''
            = Inr (createAction L (prop_of K ''START_TYPE''))"
    "creator_prop (fst (createAsyncAction L type fn options c)) ''success''
            = Inr (createAction L (prop_of K ''SUCCESS_TYPE''))"
    "creator_prop (fst (createAsyncAction L type fn options c)) ''fail''
            = Inr (createAction L (prop_of K ''FAIL_TYPE''))"
    "creator_prop (fst (createAsyncAction L type fn options c)) ''START_TYPE''
            = Inr (prop_of K ''START_TYPE'')"
    "creator_prop (fst (createAsyncAction L type fn options c)) ''SUCCESS_TYPE''
            = Inr (prop_of K ''SUCCESS_TYPE'')"
    "creator_prop (fst (createAsyncAction L type fn options c)) ''FAIL_TYPE''
            = Inr (prop_of K ''FAIL_TYPE'')"
    "creator_prop (fst (createAsyncAction L type fn options c)) ''NAME''
            = Inr (prop_of K ''NAME'')"
    by (simp_all add: s creator_prop_def decorated_def lookup_def)
  from user lib att show ?thesis by simp
qed

text \<open>The theorem at \<^verbatim>\<open>createAsyncAction('GET_POSTS', () => ({ type: 'MINE',
  makeRequest: fetchPosts }))(1)\<close>.\<close>

theorem action_fields_witness:
  "result_prop (create_and_call sample_lib (Str ''GET_POSTS'') fn_typed None () [Num 1]) ''makeRequest''
      = Inr (Fun ''fetchPosts'')
   \<and> result_prop (create_and_call sample_lib (Str ''GET_POSTS'') fn_typed None () [Num 1]) ''type''
      = Inr (Str ''MINE'')
   \<and> result_prop (create_and_call sample_lib (Str ''GET_POSTS'') fn_typed None () [Num 1]) ''actionCreatorArgs''
      = Inr (Arr [Num 1])
   \<and> result_prop (create_and_call sample_lib (Str ''GET_POSTS'') fn_typed None () [Num 1]) ''actionName''
      = Inr (Str ''GET_POSTS'')
   \<and> result_prop (create_and_call sample_lib (Str ''GET_POSTS'') fn_typed None () [Num 1]) ''startActionCreator''
      = Inr (ActionCreatorFn (Str ''GET_POSTS_START''))
   \<and> creator_prop (fst (createAsyncAction sample_lib (Str ''GET_POSTS'') fn_typed None ())) ''fail''
      = Inr (ActionCreatorFn (Str ''GET_POSTS_FAIL''))
   \<and> creator_prop (fst (createAsyncAction sample_lib (Str ''GET_POSTS'') fn_typed None ())) ''NAME''
      = Inr (Str ''GET_POSTS'')"
proof -
  have fn: "fn_typed [Num 1] = Inr (Obj [(''type'', Str ''MINE''), (''makeRequest'', Fun ''fetchPosts'')])"
    by (simp add: fn_typed_def)
  have mr: "typeof (lookup [(''type'', Str ''MINE''), (''makeRequest'', Fun ''fetchPosts'')] ''makeRequest'') = ''function''"
    by (simp add: lookup_def)
  show ?thesis
    using action_fields [of sample_lib "()" "Str ''GET_POSTS''" "sample_constants ''GET_POSTS''"
        fn_typed "[Num 1]" "[(''type'', Str ''MINE''), (''makeRequest'', Fun ''fetchPosts'')]" None]
      sample_valid fn mr
    by (simp add: library_keys_def lookup_def sample_constants_def prop_of_Obj sample_lib_def)
qed

text \<open>The claim as it was written promises all fields of \<^verbatim>\<open>fn(...args)\<close>. A user's
  field named \<^verbatim>\<open>actionName\<close> is not in the result: the library's value is.\<close>

theorem user_actionName_replaced:
  "result_prop (fn_clash []) ''actionName'' = Inr (Str ''mine'')
   \<and> result_prop (create_and_call sample_lib (Str ''GET_POSTS'') fn_clash None () []) ''actionName''
       = Inr (Str ''GET_POSTS'')"
  by (simp add: result_prop_def prop_of_def lookup_def fn_clash_def create_and_call_def
      createAsyncAction_def decorateActionCreator_def actionCreator_def get_prop_def
      sample_lib_def sample_constants_def option_namespace_def Let_def)

text \<open>
  C9. Whatever object \<^verbatim>\<open>fn\<close> returns, the action object has its
  \<^verbatim>\<open>actionCreatorArgs\<close>, \<^verbatim>\<open>actionName\<close>, \<^verbatim>\<open>startActionCreator\<close>,
  \<^verbatim>\<open>successActionCreator\<close> and \<^verbatim>\<open>failActionCreator\<close> fields equal to the values the
  library assigns (the argument list, and the creator's own \<^verbatim>\<open>actionName\<close>,
  \<^verbatim>\<open>start\<close>, \<^verbatim>\<open>success\<close> and \<^verbatim>\<open>fail\<close> properties), also when the user's object has
  keys with those names; a \<^verbatim>\<open>type\<close> key of the user's object replaces the namespace tag.
\<close>

theorem library_keys_win:
  assumes "fst (getOrCreateAsyncConstants L c type) = Inr K" and "truthy K"
    and "fn args = Inr (Obj kvs)" and "typeof (lookup kvs ''makeRequest'') = ''function''"
  shows "result_prop (create_and_call L type fn options c args) ''actionCreatorArgs'' = Inr (Arr args)
       \<and> result_prop (create_and_call L type fn options c args) ''actionName''
            = creator_prop (fst (createAsyncAction L type fn options c)) ''actionName''
       \<and> result_prop (create_and_call L type fn options c args) ''startActionCreator''
            = creator_prop (fst (createAsyncAction L type fn options c)) ''start''
       \<and> result_prop (create_and_call L type fn options c args) ''successActionCreator''
            = creator_prop (fst (createAsyncAction L type fn options c)) ''success''
       \<and> result_prop (create_and_call L type fn options c args) ''failActionCreator''
            = creator_prop (fst (createAsyncAction L type fn options c)) ''fail''
       \<and> creator_prop (fst (createAsyncAction L type fn options c)) ''actionName''
            = Inr (prop_of K ''NAME'')
       \<and> creator_prop (fst (createAsyncAction L type fn options c)) ''start''
            = Inr (createAction L (prop_of K ''START_TYPE''))
       \<and> creator_prop (fst (createAsyncAction L type fn options c)) ''success''
            = Inr (createAction L (prop_of K ''SUCCESS_TYPE''))
       \<and> creator_prop (fst (createAsyncAction L type fn options c)) ''fail''
            = Inr (createAction L (prop_of K ''FAIL_TYPE''))
       \<and> (''type'' \<in> fst ` set kvs \<longrightarrow>
            result_prop (create_and_call L type fn options c args) ''type'' = Inr (lookup kvs ''type''))"
proof -
  have r: "create_and_call L type fn options c args = Inr (Obj
           ([(''type'', option_namespace L options)] @ kvs @
            [(''actionCreatorArgs'', Arr args),
             (''actionName'', prop_of K ''NAME''),
             (''startActionCreator'', createAction L (prop_of K ''START_TYPE'')),
             (''successActionCreator'', createAction L (prop_of K ''SUCCESS_TYPE'')),
             (''failActionCreator'', createAction L (prop_of K ''FAIL_TYPE''))]))"
    using assms by (rule create_and_call_valid)
  have s: "fst (createAsyncAction L type fn options c) =
           Inr \<lparr>captured_fn = fn, captured_namespace = option_namespace L options,
                assigned = decorated L K\<rparr>"
    using assms(1,2) by (rule createAsyncAction_valid)
  have att: "creator_prop (fst (createAsyncAction L type fn options c)) ''actionName''
            = Inr (prop_of K ''NAME'')"
    "creator_prop (fst (createAsyncAction L type fn options c)) ''start''
            = Inr (createAction L (prop_of K ''START_TYPE''))"
    "creator_prop (fst (createAsyncAction L type fn options c)) ''success''
            = Inr (createAction L (prop_of K ''SUCCESS_TYPE''))"
    "creator_prop (fst (createAsyncAction L type fn options c)) ''fail''
            = Inr (createAction L (prop_of K ''FAIL_TYPE''))"
    by (simp_all add: s creator_prop_def decorated_def lookup_def)
  have lib: "result_prop (create_and_call L type fn options c args) ''actionCreatorArgs'' = Inr (Arr args)"
    "result_prop (create_and_call L type fn options c args) ''actionName'' = Inr (prop_of K ''NAME'')"
    "result_prop (create_and_call L type fn options c args) ''startActionCreator''
            = Inr (createAction L (prop_of K ''START_TYPE''))"
    "result_prop (create_and_call L type fn options c args) ''successActionCreator''
            = Inr (createAction L (prop_of K ''SUCCESS_TYPE''))"
    "result_prop (create_and_call L type fn options c args) ''failActionCreator''
            = Inr (createAction L (prop_of K ''FAIL_TYPE''))"
    by (simp_all add: r result_prop_Inr prop_of_Obj lookup_append lookup_Cons)
  have ty: "''type'' \<in> fst ` set kvs \<longrightarrow>
            result_prop (create_and_call L type fn options c args) ''type'' = Inr (lookup kvs ''type'')"
    by (simp add: r result_prop_Inr prop_of_Obj lookup_append lookup_Cons)
  from att lib ty show ?thesis by simp
qed

text \<open>The theorem at \<^verbatim>\<open>fn_clash\<close>, whose object defines all six keys.\<close>

theorem library_keys_win_witness:
  "result_prop (fn_clash [Num 5]) ''actionCreatorArgs'' = Inr (Num 1)
   \<and> result_prop (create_and_call sample_lib (Str ''GET_POSTS'') fn_clash None () [Num 5]) ''actionCreatorArgs''
        = Inr (Arr [Num 5])
   \<and> result_prop (fn_clash [Num 5]) ''actionName'' = Inr (Str ''mine'')
   \<and> result_prop (create_and_call sample_lib (Str ''GET_POSTS'') fn_clash None () [Num 5]) ''actionName''
        = Inr (Str ''GET_POSTS'')
   \<and> result_prop (fn_clash [Num 5]) ''startActionCreator'' = Inr (Num 2)
   \<and> result_prop (create_and_call sample_lib (Str ''GET_POSTS'') fn_clash None () [Num 5]) ''startActionCreator''
        = Inr (ActionCreatorFn (Str ''GET_POSTS_START''))
   \<and> result_prop (fn_clash [Num 5]) ''successActionCreator'' = Inr (Num 3)
   \<and> result_prop (create_and_call sample_lib (Str ''GET_POSTS'') fn_clash None () [Num 5]) ''successActionCreator''
        = Inr (ActionCreatorFn (Str ''GET_POSTS_SUCCESS''))
   \<and> result_prop (fn_clash [Num 5]) ''failActionCreator'' = Inr (Num 4)
   \<and> result_prop (create_and_call sample_lib (Str ''GET_POSTS'') fn_clash None () [Num 5]) ''failActionCreator''
        = Inr (ActionCreatorFn (Str ''GET_POSTS_FAIL''))
   \<and> result_prop (fn_clash [Num 5]) ''type'' = Inr (Str ''MINE'')
   \<and> result_prop (create_and_call sample_lib (Str ''GET_POSTS'') fn_clash None () [Num 5]) ''type''
        = Inr (Str ''MINE'')"
proof -
  have fn: "fn_clash [Num 5] = Inr (Obj [(''type'', Str ''MINE''),
      (''makeRequest'', Fun ''fetchPosts''),
      (''actionCreatorArgs'', Num 1),
      (''actionName'', Str ''mine''),
      (''startActionCreator'', Num 2),
      (''successActionCreator'', Num 3),
      (''failActionCreator'', Num 4)])"
    by (simp add: fn_clash_def)
  have user: "result_prop (fn_clash [Num 5]) ''actionCreatorArgs'' = Inr (Num 1)"
    "result_prop (fn_clash [Num 5]) ''actionName'' = Inr (Str ''mine'')"
    "result_prop (fn_clash [Num 5]) ''startActionCreator'' = Inr (Num 2)"
    "result_prop (fn_clash [Num 5]) ''successActionCreator'' = Inr (Num 3)"
    "result_prop (fn_clash [Num 5]) ''failActionCreator'' = Inr (Num 4)"
    "result_prop (fn_clash [Num 5]) ''type'' = Inr (Str ''MINE'')"
    by (simp_all add: fn result_prop_Inr prop_of_Obj lookup_def)
  show ?thesis
    using library_keys_win [of sample_lib "()" "Str ''GET_POSTS''" "sample_constants ''GET_POSTS''"
        fn_clash "[Num 5]" _ None, OF sample_valid fn fn_clash_makeRequest] user
    by (simp add: lookup_def sample_constants_def prop_of_Obj sample_lib_def)
qed

subsection \<open>The namespace tag\<close>

text \<open>
  C8, amended. For a type with a constant set, a function \<open>fn\<close> returning an object with a
  \<^verbatim>\<open>makeRequest\<close> function and no \<^verbatim>\<open>type\<close> key of its own, and every argument list,
  the object returned by the creator has the namespace as its \<^verbatim>\<open>type\<close> field:
  \<^verbatim>\<open>options.namespace\<close> when it is given (not \<^verbatim>\<open>undefined\<close>), otherwise
  \<^verbatim>\<open>REDUX_EASY_ASYNC_NAMESPACE\<close>.
\<close>

theorem namespace_tag:
  assumes "fst (getOrCreateAsyncConstants L c type) = Inr K" and "truthy K"
    and "fn args = Inr (Obj kvs)" and "typeof (lookup kvs ''makeRequest'') = ''function''"
    and "''type'' \<notin> fst ` set kvs"
  shows "result_prop (create_and_call L type fn options c args) ''type'' =
           Inr (case options of
                  None \<Rightarrow> REDUX_EASY_ASYNC_NAMESPACE L
                | Some opts \<Rightarrow>
                    if lookup opts ''namespace'' = Undefined then REDUX_EASY_ASYNC_NAMESPACE L
                    else lookup opts ''namespace'')"
proof -
  have r: "create_and_call L type fn options c args = Inr (Obj
           ([(''type'', option_namespace L options)] @ kvs @
            [(''actionCreatorArgs'', Arr args),
             (''actionName'', prop_of K ''NAME''),
             (''startActionCreator'', createAction L (prop_of K ''START_TYPE'')),
             (''successActionCreator'', createAction L (prop_of K ''SUCCESS_TYPE'')),
             (''failActionCreator'', createAction L (prop_of K ''FAIL_TYPE''))]))"
    using assms(1-4) by (rule create_and_call_valid)
  have "result_prop (create_and_call L type fn options c args) ''type'' = Inr (option_namespace L options)"
    using assms(5) by (simp add: r result_prop_Inr prop_of_Obj lookup_append lookup_Cons lookup_Nil)
  then show ?thesis by (simp add: option_namespace_cases)
qed

text \<open>The theorem without options and with \<^verbatim>\<open>{ namespace: 'SECOND_MIDDLEWARE' }\<close>.\<close>

theorem namespace_tag_witness:
  "result_prop (create_and_call sample_lib (Str ''GET_POSTS'') fn_plain None () []) ''type''
     = Inr (Str ''REDUX_EASY_ASYNC_NAMESPACE'')
   \<and> result_prop (create_and_call sample_lib (Str ''GET_POSTS'') fn_plain
        (Some [(''namespace'', Str ''SECOND_MIDDLEWARE'')]) () []) ''type''
     = Inr (Str ''SECOND_MIDDLEWARE'')"
proof -
  have fn: "fn_plain [] = Inr (Obj [(''makeRequest'', Fun ''fetchPosts'')])"
    by (simp add: fn_plain_def)
  have no: "''type'' \<notin> fst ` set [(''makeRequest'', Fun ''fetchPosts'')]"
    by simp
  show ?thesis
    using namespace_tag [of sample_lib "()" "Str ''GET_POSTS''" "sample_constants ''GET_POSTS''"
        fn_plain "[]" _ None, OF sample_valid fn fn_plain_makeRequest no]
      namespace_tag [of sample_lib "()" "Str ''GET_POSTS''" "sample_constants ''GET_POSTS''"
        fn_plain "[]" _ "Some [(''namespace'', Str ''SECOND_MIDDLEWARE'')]",
        OF sample_valid fn fn_plain_makeRequest no]
    by (simp add: lookup_def sample_lib_def)
qed

text \<open>The claim as it was written holds for every valid descriptor. A descriptor with a
  \<^verbatim>\<open>type\<close> key is valid, and its \<^verbatim>\<open>type\<close> is what the action carries.\<close>

theorem user_type_replaces_namespace:
  "result_prop (create_and_call sample_lib (Str ''GET_POSTS'') fn_typed None () []) ''type''
     = Inr (Str ''MINE'')
   \<and> REDUX_EASY_ASYNC_NAMESPACE sample_lib = Str ''REDUX_EASY_ASYNC_NAMESPACE''
   \<and> result_prop (create_and_call sample_lib (Str ''GET_POSTS'') fn_typed None () []) ''type''
     \<noteq> Inr (REDUX_EASY_ASYNC_NAMESPACE sample_lib)"
  by (simp add: result_prop_def prop_of_def lookup_def fn_typed_def create_and_call_def
      createAsyncAction_def decorateActionCreator_def actionCreator_def get_prop_def
      sample_lib_def sample_constants_def option_namespace_def Let_def)

subsection \<open>Errors\<close>

text \<open>
  C6. When no constant set can be derived from the type argument (the generator returns a
  falsy value), \<^verbatim>\<open>createAsyncAction(type, fn, options)\<close> itself throws an Error whose
  message carries \<^verbatim>\<open>ERRORS.ASYNC_TYPE_NOT_VALID\<close>, and returns no creator.
\<close>

theorem invalid_type_throws:
  assumes "fst (getOrCreateAsyncConstants L c type) = Inr K" and "\<not> truthy K"
  shows "fst (createAsyncAction L type fn options c) =
           Inl (Error (''createAsyncAction(type, fn, options): '' @ ASYNC_TYPE_NOT_VALID (ERRORS L)))"
  using assms
  by (cases "getOrCreateAsyncConstants L c type") (simp add: createAsyncAction_def)

text \<open>The theorem at the type \<^verbatim>\<open>3\<close>, from which the sample generator derives nothing.\<close>

theorem invalid_type_throws_witness:
  "fst (createAsyncAction sample_lib (Num 3) fn_plain None ()) =
     Inl (Error ''createAsyncAction(type, fn, options): type is not valid'')"
  using invalid_type_throws [of sample_lib "()" "Num 3" Undefined fn_plain None, OF sample_invalid]
  by (simp add: sample_lib_def)

text \<open>
  C5. The claim: a return value of \<^verbatim>\<open>fn\<close> that is not an object makes the creator throw
  exactly \<^verbatim>\<open>ERRORS.ACTION_NOT_OBJECT\<close>, and an object without a \<^verbatim>\<open>makeRequest\<close>
  function makes it throw exactly \<^verbatim>\<open>ERRORS.MAKE_REQUEST_NOT_FUNCTION\<close>. The code does
  so for every value but \<^verbatim>\<open>null\<close> (lemmas \<open>actionCreator_not_object\<close> and
  \<open>actionCreator_no_makeRequest\<close>). At \<^verbatim>\<open>createAsyncAction('GET_POSTS', () => null)()\<close>
  the test \<^verbatim>\<open>typeof action !== 'object'\<close> lets \<^verbatim>\<open>null\<close> pass, and the read of
  \<^verbatim>\<open>action.makeRequest\<close> throws the engine's TypeError, which is neither of the two
  designated errors.
\<close>

theorem null_action_TypeError:
  "create_and_call sample_lib (Str ''GET_POSTS'') fn_null None () [] = Inl TypeError
   \<and> create_and_call sample_lib (Str ''GET_POSTS'') fn_null None () []
       \<noteq> Inl (Error (ACTION_NOT_OBJECT (ERRORS sample_lib)))
   \<and> create_and_call sample_lib (Str ''GET_POSTS'') fn_null None () []
       \<noteq> Inl (Error (MAKE_REQUEST_NOT_FUNCTION (ERRORS sample_lib)))"
proof -
  have "create_and_call sample_lib (Str ''GET_POSTS'') fn_null None () [] =
          actionCreator sample_lib
            \<lparr>captured_fn = fn_null, captured_namespace = option_namespace sample_lib None,
             assigned = decorated sample_lib (sample_constants ''GET_POSTS'')\<rparr> []"
    by (simp add: create_and_call_def createAsyncAction_valid [OF sample_valid])
  also have "\<dots> = Inl TypeError"
    by (rule actionCreator_null) (simp add: fn_null_def)
  finally show ?thesis by simp
qed

subsection \<open>When the validations run\<close>

text \<open>
  C10. \<^verbatim>\<open>createAsyncAction\<close> validates only the type argument when it is called. What
  it returns or throws, and the state it leaves, do not depend on \<^verbatim>\<open>fn\<close>, which it
  never calls: for an invalid type it throws \<^verbatim>\<open>ASYNC_TYPE_NOT_VALID\<close> whatever \<open>fn\<close>
  is, and for a valid type it returns a creator whatever \<open>fn\<close> is. The validations of
  \<^verbatim>\<open>fn\<close>'s return value run at each call of the creator, on the value \<^verbatim>\<open>fn\<close>
  returns for the arguments of that call.
\<close>

theorem validation_eager_and_lazy:
  "outcome (createAsyncAction L type fn options c) = outcome (createAsyncAction L type fn' options c)
   \<and> (fst (getOrCreateAsyncConstants L c type) = Inr K \<and> \<not> truthy K \<longrightarrow>
        fst (createAsyncAction L type fn options c) =
          Inl (Error (''createAsyncAction(type, fn, options): '' @ ASYNC_TYPE_NOT_VALID (ERRORS L))))
   \<and> (fst (getOrCreateAsyncConstants L c type) = Inr K \<and> truthy K \<longrightarrow>
        \<not> isl (fst (createAsyncAction L type fn options c))
        \<and> (fn args = Inr v \<and> typeof v \<noteq> ''object'' \<longrightarrow>
             create_and_call L type fn options c args = Inl (Error (ACTION_NOT_OBJECT (ERRORS L))))
        \<and> (fn args = Inr v \<and> typeof v = ''object'' \<and> v \<noteq> Null
               \<and> typeof (prop_of v ''makeRequest'') \<noteq> ''function'' \<longrightarrow>
             create_and_call L type fn options c args
               = Inl (Error (MAKE_REQUEST_NOT_FUNCTION (ERRORS L))))
        \<and> (fn args = Inr v \<and> typeof v = ''object'' \<and> v \<noteq> Null
               \<and> typeof (prop_of v ''makeRequest'') = ''function'' \<longrightarrow>
             \<not> isl (create_and_call L type fn options c args)))"
proof -
  have indep: "outcome (createAsyncAction L type fn options c)
      = outcome (createAsyncAction L type fn' options c)"
    by (rule outcome_independent)
  have invalid: "fst (createAsyncAction L type fn options c) =
          Inl (Error (''createAsyncAction(type, fn, options): '' @ ASYNC_TYPE_NOT_VALID (ERRORS L)))"
    if "fst (getOrCreateAsyncConstants L c type) = Inr K" and "\<not> truthy K"
    using that by (rule createAsyncAction_invalid)
  have valid: "\<not> isl (fst (createAsyncAction L type fn options c))
        \<and> (fn args = Inr v \<and> typeof v \<noteq> ''object'' \<longrightarrow>
             create_and_call L type fn options c args = Inl (Error (ACTION_NOT_OBJECT (ERRORS L))))
        \<and> (fn args = Inr v \<and> typeof v = ''object'' \<and> v \<noteq> Null
               \<and> typeof (prop_of v ''makeRequest'') \<noteq> ''function'' \<longrightarrow>
             create_and_call L type fn options c args
               = Inl (Error (MAKE_REQUEST_NOT_FUNCTION (ERRORS L))))
        \<and> (fn args = Inr v \<and> typeof v = ''object'' \<and> v \<noteq> Null
               \<and> typeof (prop_of v ''makeRequest'') = ''function'' \<longrightarrow>
             \<not> isl (create_and_call L type fn options c args))"
    if ok: "fst (getOrCreateAsyncConstants L c type) = Inr K" "truthy K"
  proof -
    let ?self = "\<lparr>captured_fn = fn, captured_namespace = option_namespace L options,
                  assigned = decorated L K\<rparr>"
    have s: "fst (createAsyncAction L type fn options c) = Inr ?self"
      using ok by (rule createAsyncAction_valid)
    have call: "create_and_call L type fn options c args = actionCreator L ?self args"
      by (simp add: create_and_call_def s)
    have 1: "\<not> isl (fst (createAsyncAction L type fn options c))"
      by (simp add: s)
    have 2: "create_and_call L type fn options c args = Inl (Error (ACTION_NOT_OBJECT (ERRORS L)))"
      if "fn args = Inr v" and "typeof v \<noteq> ''object''"
      unfolding call by (rule actionCreator_not_object [of _ _ v]) (simp_all add: that)
    have 3: "create_and_call L type fn options c args
               = Inl (Error (MAKE_REQUEST_NOT_FUNCTION (ERRORS L)))"
      if "fn args = Inr v" and "typeof v = ''object''" and "v \<noteq> Null"
        and "typeof (prop_of v ''makeRequest'') \<noteq> ''function''"
      unfolding call by (rule actionCreator_no_makeRequest [of _ _ v]) (simp_all add: that)
    have 4: "\<not> isl (create_and_call L type fn options c args)"
      if "fn args = Inr v" and "typeof v = ''object''" and "v \<noteq> Null"
        and "typeof (prop_of v ''makeRequest'') = ''function''"
      unfolding call using that by (cases v) (simp_all add: actionCreator_def get_prop_def)
    from 1 2 3 4 show ?thesis by blast
  qed
  from indep invalid valid show ?thesis by blast
qed

theorem validation_eager_and_lazy_witness:
  "fst (createAsyncAction sample_lib (Num 3) fn_null None ()) =
     Inl (Error ''createAsyncAction(type, fn, options): type is not valid'')
   \<and> \<not> isl (fst (createAsyncAction sample_lib (Str ''GET_POSTS'') fn_sometimes None ()))
   \<and> create_and_call sample_lib (Str ''GET_POSTS'') fn_sometimes None () []
        = Inl (Error ''action is not an object'')
   \<and> \<not> isl (create_and_call sample_lib (Str ''GET_POSTS'') fn_sometimes None () [Bool True])
   \<and> create_and_call sample_lib (Str ''GET_POSTS'') fn_empty None () []
        = Inl (Error ''makeRequest is not a function'')"
proof -
  have a: "fst (createAsyncAction sample_lib (Num 3) fn_null None ()) =
     Inl (Error ''createAsyncAction(type, fn, options): type is not valid'')"
    using validation_eager_and_lazy [of sample_lib "Num 3" fn_null None "()" fn_null Undefined]
      sample_invalid
    by (simp add: sample_lib_def)
  have b: "\<not> isl (fst (createAsyncAction sample_lib (Str ''GET_POSTS'') fn_sometimes None ()))
     \<and> create_and_call sample_lib (Str ''GET_POSTS'') fn_sometimes None () []
        = Inl (Error ''action is not an object'')"
    using validation_eager_and_lazy [of sample_lib "Str ''GET_POSTS''" fn_sometimes None "()"
        fn_sometimes "sample_constants ''GET_POSTS''" "[]" "Num 7"] sample_valid
    by (simp add: sample_lib_def fn_sometimes_def)
  have c: "\<not> isl (create_and_call sample_lib (Str ''GET_POSTS'') fn_sometimes None () [Bool True])"
    using validation_eager_and_lazy [of sample_lib "Str ''GET_POSTS''" fn_sometimes None "()"
        fn_sometimes "sample_constants ''GET_POSTS''" "[Bool True]"
        "Obj [(''makeRequest'', Fun ''fetchPosts'')]"] sample_valid
    by (simp add: fn_sometimes_def prop_of_Obj lookup_def)
  have e: "create_and_call sample_lib (Str ''GET_POSTS'') fn_empty None () []
        = Inl (Error ''makeRequest is not a function'')"
    using validation_eager_and_lazy [of sample_lib "Str ''GET_POSTS''" fn_empty None "()"
        fn_empty "sample_constants ''GET_POSTS''" "[]" "Obj []"] sample_valid
    by (simp add: sample_lib_def fn_empty_def prop_of_Obj lookup_def)
  from a b c e show ?thesis by simp
qed

section \<open>Properties of the constant generator\<close>

lemma cache_ok_empty: "cache_ok display empty_generator"
  by (simp add: cache_ok_def empty_generator_def)

lemma deref_grows:
  "deref s r = Some v \<Longrightarrow> deref (snd (constant_generator display s b)) r = Some v"
  by (auto simp: deref_def constant_generator_def nth_append split: option.splits if_splits)

lemma cache_grows:
  "map_of (cache s) b = Some r \<Longrightarrow>
   map_of (cache (snd (constant_generator display s b'))) b = Some r"
  by (auto simp: constant_generator_def split: option.splits)

lemma cache_ok_lookup:
  "cache_ok display s \<Longrightarrow> map_of (cache s) b = Some r \<Longrightarrow>
   deref s r = Some (derive_constants display b)"
  by (auto simp: cache_ok_def list_all_iff dest: map_of_SomeD)

lemma cache_ok_step:
  assumes "cache_ok display s"
  shows "cache_ok display (snd (constant_generator display s b))"
proof (cases "map_of (cache s) b")
  case None
  have old: "deref \<lparr>heap = heap s @ [derive_constants display b],
            cache = (b, length (heap s)) # cache s\<rparr> r = Some v"
    if "deref s r = Some v" for r v
    using that by (auto simp: deref_def nth_append split: if_splits)
  from assms None show ?thesis
    by (auto simp: cache_ok_def constant_generator_def list_all_iff old)
       (simp add: deref_def)
next
  case (Some r)
  with assms show ?thesis by (simp add: constant_generator_def)
qed

lemma generator_hit:
  "map_of (cache s) b = Some r \<Longrightarrow> constant_generator display s b = (r, s)"
  by (simp add: constant_generator_def)

lemma generator_caches:
  "map_of (cache (snd (constant_generator display s b))) b
     = Some (fst (constant_generator display s b))"
  by (simp add: constant_generator_def split: option.splits)

lemma calls_keep:
  "map_of (cache s) b = Some r \<Longrightarrow> deref s r = Some v \<Longrightarrow>
   map_of (cache (generator_calls display s bs)) b = Some r
   \<and> deref (generator_calls display s bs) r = Some v"
proof (induction bs arbitrary: s)
  case Nil
  then show ?case by simp
next
  case (Cons b' bs)
  from Cons.prems have "map_of (cache (snd (constant_generator display s b'))) b = Some r"
    and "deref (snd (constant_generator display s b')) r = Some v"
    by (simp_all add: cache_grows deref_grows)
  then show ?case using Cons.IH by simp
qed

text \<open>Every state the generator reaches from a sound one is sound.\<close>

lemma calls_cache_ok:
  "cache_ok display s \<Longrightarrow> cache_ok display (generator_calls display s bs)"
  by (induction bs arbitrary: s) (simp_all add: cache_ok_step)

text \<open>
  C7. For every base type string, a second call of the constant generator returns the
  identical constant set as the first call: the same reference, to the same
  \<^verbatim>\<open>{ START_TYPE, SUCCESS_TYPE, FAIL_TYPE, NAME }\<close> object, which no call in between has
  changed, and the second call allocates nothing. The generator's state is one whose cache
  is sound, as is the empty state and every state the generator reaches from it (lemmas
  \<open>cache_ok_empty\<close> and \<open>calls_cache_ok\<close>).
\<close>

theorem generator_memoized:
  assumes "cache_ok display s"
  shows "fst (constant_generator display
                (generator_calls display (snd (constant_generator display s base)) between) base)
           = fst (constant_generator display s base)
       \<and> snd (constant_generator display
                (generator_calls display (snd (constant_generator display s base)) between) base)
           = generator_calls display (snd (constant_generator display s base)) between
       \<and> deref (generator_calls display (snd (constant_generator display s base)) between)
                (fst (constant_generator display s base))
           = deref (snd (constant_generator display s base)) (fst (constant_generator display s base))
       \<and> deref (snd (constant_generator display s base)) (fst (constant_generator display s base))
           = Some (derive_constants display base)"
proof -
  let ?r = "fst (constant_generator display s base)"
  let ?s1 = "snd (constant_generator display s base)"
  let ?s2 = "generator_calls display ?s1 between"
  have c1: "map_of (cache ?s1) base = Some ?r"
    by (rule generator_caches)
  have "cache_ok display ?s1"
    using assms by (rule cache_ok_step)
  then have d1: "deref ?s1 ?r = Some (derive_constants display base)"
    using c1 by (rule cache_ok_lookup)
  from calls_keep [OF c1 d1, of display between]
  have c2: "map_of (cache ?s2) base = Some ?r"
    and d2: "deref ?s2 ?r = Some (derive_constants display base)"
    by simp_all
  have "constant_generator display ?s2 base = (?r, ?s2)"
    using c2 by (rule generator_hit)
  with d1 d2 show ?thesis by simp
qed

text \<open>The theorem from the empty state, with three calls between the two for
  \<^verbatim>\<open>'GET_POSTS'\<close>, one of them for the same base type.\<close>

theorem generator_memoized_witness:
  "fst (constant_generator id
          (generator_calls id (snd (constant_generator id empty_generator ''GET_POSTS''))
             [''PUT_POST'', ''GET_POSTS'', ''GET_USER'']) ''GET_POSTS'') = 0
   \<and> fst (constant_generator id empty_generator ''GET_POSTS'') = 0
   \<and> deref (generator_calls id (snd (constant_generator id empty_generator ''GET_POSTS''))
             [''PUT_POST'', ''GET_POSTS'', ''GET_USER'']) 0
       = Some (Obj [(''START_TYPE'', Str ''GET_POSTS_START''),
                    (''SUCCESS_TYPE'', Str ''GET_POSTS_SUCCESS''),
                    (''FAIL_TYPE'', Str ''GET_POSTS_FAIL''),
                    (''NAME'', Str ''GET_POSTS'')])"
proof -
  have r: "fst (constant_generator id empty_generator ''GET_POSTS'') = 0"
    by (simp add: constant_generator_def empty_generator_def)
  show ?thesis
    using generator_memoized [OF cache_ok_empty, of id "''GET_POSTS''"
        "[''PUT_POST'', ''GET_POSTS'', ''GET_USER'']"]
    by (simp add: r derive_constants_def)
qed

section \<open>Properties of the middleware\<close>

subsection \<open>Calls of action creators\<close>

lemma typeof_action_creator: "is_action_creator f \<Longrightarrow> typeof f = ''function''"
  by (cases f) simp_all

lemma apply_action_creator:
  "is_action_creator f \<Longrightarrow>
   apply_fn E f [p, m] = Obj [(''type'', creator_type f), (''payload'', p), (''meta'', m)]"
  by (cases f) (simp_all add: arg_def)

lemma action_creator_fields:
  assumes "is_action_creator f"
  shows "prop_of (apply_fn E f [p, m]) ''type'' = creator_type f"
    and "prop_of (apply_fn E f [p, m]) ''payload'' = p"
    and "prop_of (apply_fn E f [p, m]) ''meta'' = m"
  by (simp_all add: apply_action_creator [OF assms] prop_of_def lookup_def)

subsection \<open>One event\<close>

lemma on_dispatch_async:
  assumes "async_action E a" and "\<not> skips E st a"
  shows "on_dispatch E st a t0 = Inr (started E st a t0)"
  using assms
  by (simp add: on_dispatch_def async_action_def call_def typeof_action_creator started_def
      start_action_def)

lemma dispatched_started:
  "dispatched (started E st a t0) = dispatched st @ [start_action E a (next_asyncID st) t0]"
  by (simp add: started_def reduce_def)

lemma map_of_fresh:
  "list_all (\<lambda>(i, r). i < n) xs \<Longrightarrow> map_of xs (n::nat) = None"
  by (induction xs) auto

lemma in_flight_started:
  assumes "ids_fresh st"
  shows "map_of (in_flight (started E st a t0)) (next_asyncID st) = Some (a, t0)"
  using map_of_fresh [of "next_asyncID st" "in_flight st"] assms
  by (simp add: started_def reduce_def ids_fresh_def map_add_def)

lemma on_settle_resolved:
  assumes "map_of (in_flight st) i = Some (a, t0)" and "async_action E a"
  shows "on_settle E st i (Resolved resp) t1 =
           Inr ((reduce E st (success_action E a i t0 t1 resp))
                  \<lparr>in_flight := filter (\<lambda>(j, r). j \<noteq> i) (in_flight st)\<rparr>)"
  using assms
  by (simp add: on_settle_def async_action_def call_def typeof_action_creator success_action_def)

lemma on_settle_rejected:
  assumes "map_of (in_flight st) i = Some (a, t0)" and "async_action E a"
  shows "on_settle E st i (Rejected err) t1 =
           Inr ((reduce E st (fail_action E a i t0 t1 err))
                  \<lparr>in_flight := filter (\<lambda>(j, r). j \<noteq> i) (in_flight st)\<rparr>)"
  using assms
  by (simp add: on_settle_def async_action_def call_def typeof_action_creator fail_action_def)

lemma on_settle_absent:
  "map_of (in_flight st) i = None \<Longrightarrow> on_settle E st i s now = Inr st"
  by (simp add: on_settle_def)

lemma map_of_filter_other:
  "j \<noteq> i \<Longrightarrow> map_of (filter (\<lambda>(k, r). k \<noteq> j) xs) i = map_of xs i"
  by (induction xs) auto

lemma map_of_filter_same:
  "map_of (filter (\<lambda>(k, r). k \<noteq> i) xs) i = None"
  by (induction xs) auto

text \<open>An event that does not settle a request leaves it in flight, and only adds to the
  actions dispatched.\<close>

lemma step_keeps_request:
  assumes "map_of (in_flight st) i = Some r" and "\<not> settles i ev" and "step E st ev = Inr st'"
  shows "map_of (in_flight st') i = Some r \<and> (\<exists>more. dispatched st' = dispatched st @ more)"
proof (cases ev)
  case (Dispatch a now)
  with assms(1,3) show ?thesis
    by (auto simp: on_dispatch_def reduce_def map_add_def split: if_splits sum.splits)
next
  case (Settle j s now)
  with assms(2) have ne: "j \<noteq> i" by simp
  from Settle assms(1,3) show ?thesis
    by (auto simp: on_settle_def reduce_def map_of_filter_other [OF ne]
        split: option.splits sum.splits)
qed

text \<open>Request identifiers stay unique.\<close>

lemma step_ids_fresh:
  assumes "ids_fresh st" and "step E st ev = Inr st'"
  shows "ids_fresh st'"
proof (cases ev)
  case (Dispatch a now)
  have weaken: "list_all (\<lambda>(i, r). i < Suc n) xs" if "list_all (\<lambda>(i, r). i < n) xs"
    for n :: nat and xs :: "(nat \<times> jsval \<times> nat) list"
    using that by (induction xs) auto
  from Dispatch assms weaken [of "next_asyncID st" "in_flight st"] show ?thesis
    by (auto simp: on_dispatch_def reduce_def ids_fresh_def split: if_splits sum.splits)
next
  case (Settle j s now)
  have sub: "list_all P (filter Q xs)" if "list_all P xs"
    for P Q and xs :: "(nat \<times> jsval \<times> nat) list"
    using that by (induction xs) auto
  from Settle assms sub [of _ "in_flight st"] show ?thesis
    by (auto simp: on_settle_def reduce_def ids_fresh_def split: option.splits sum.splits)
qed

subsection \<open>Runs\<close>

lemma run_keeps_request:
  "map_of (in_flight st) i = Some r \<Longrightarrow> \<not> list_ex (settles i) evs \<Longrightarrow>
   run E st evs = Inr st' \<Longrightarrow>
   map_of (in_flight st') i = Some r \<and> (\<exists>more. dispatched st' = dispatched st @ more)"
proof (induction evs arbitrary: st)
  case Nil
  then show ?case by simp
next
  case (Cons ev evs)
  from Cons.prems(3) obtain st1 where s1: "step E st ev = Inr st1" and r1: "run E st1 evs = Inr st'"
    by (auto split: sum.splits)
  from Cons.prems(2) have n1: "\<not> settles i ev" and n2: "\<not> list_ex (settles i) evs"
    by simp_all
  from step_keeps_request [OF Cons.prems(1) n1 s1]
  obtain more1 where k1: "map_of (in_flight st1) i = Some r"
    and d1: "dispatched st1 = dispatched st @ more1" by blast
  from Cons.IH [OF k1 n2 r1]
  obtain more2 where "map_of (in_flight st') i = Some r"
    and "dispatched st' = dispatched st1 @ more2" by blast
  with d1 show ?case by simp
qed

lemma run_append:
  "run E st (xs @ ys) = (case run E st xs of Inl e \<Rightarrow> Inl e | Inr st' \<Rightarrow> run E st' ys)"
  by (induction xs arbitrary: st) (simp_all split: sum.splits)

subsection \<open>From the creator to the middleware\<close>

text \<open>With the plain action creators of this section as \<^verbatim>\<open>createAction\<close> and the
  middleware's namespace as the creator's, what a creator of \<^verbatim>\<open>createAsyncAction\<close>
  returns is an async action, unless the user's object has a \<^verbatim>\<open>type\<close> of its own.\<close>

lemma created_action_is_async:
  assumes "fst (getOrCreateAsyncConstants L c type) = Inr K" and "truthy K"
    and "fn args = Inr (Obj kvs)" and "typeof (lookup kvs ''makeRequest'') = ''function''"
    and "createAction L = ActionCreatorFn"
    and "option_namespace L options = namespace E"
    and "''type'' \<notin> fst ` set kvs"
    and "create_and_call L type fn options c args = Inr a"
  shows "async_action E a"
proof -
  have "create_and_call L type fn options c args = Inr (Obj
           ([(''type'', option_namespace L options)] @ kvs @
            [(''actionCreatorArgs'', Arr args),
             (''actionName'', prop_of K ''NAME''),
             (''startActionCreator'', createAction L (prop_of K ''START_TYPE'')),
             (''successActionCreator'', createAction L (prop_of K ''SUCCESS_TYPE'')),
             (''failActionCreator'', createAction L (prop_of K ''FAIL_TYPE''))]))"
    using assms(1-4) by (rule create_and_call_valid)
  with assms(8) have a: "a = Obj
           ([(''type'', option_namespace L options)] @ kvs @
            [(''actionCreatorArgs'', Arr args),
             (''actionName'', prop_of K ''NAME''),
             (''startActionCreator'', createAction L (prop_of K ''START_TYPE'')),
             (''successActionCreator'', createAction L (prop_of K ''SUCCESS_TYPE'')),
             (''failActionCreator'', createAction L (prop_of K ''FAIL_TYPE''))])"
    by simp
  from assms(7) show ?thesis
    by (simp add: async_action_def a prop_of_Obj lookup_append lookup_Cons lookup_Nil
        assms(5,6))
qed

subsection \<open>The sample run\<close>

lemma get_posts_created:
  "create_and_call sample_lib (Str ''GET_POSTS'') (fn_get_posts p) None () [] = Inr (get_posts p)"
proof -
  have fn: "fn_get_posts p [] = Inr (Obj
     [(''makeRequest'', Fun ''fetchPosts''),
      (''parseSuccess'', Fun ''wrap''),
      (''parseFail'', Fun ''wrap''),
      (''shouldMakeRequest'', Fun p)])"
    by (simp add: fn_get_posts_def)
  have mr: "typeof (lookup
     [(''makeRequest'', Fun ''fetchPosts''),
      (''parseSuccess'', Fun ''wrap''),
      (''parseFail'', Fun ''wrap''),
      (''shouldMakeRequest'', Fun p)] ''makeRequest'') = ''function''"
    by (simp add: lookup_def)
  have ns: "option_namespace sample_lib None = Str ''REDUX_EASY_ASYNC_NAMESPACE''"
    by (simp add: option_namespace_cases sample_lib_def)
  have cr: "createAction sample_lib = ActionCreatorFn"
    by (simp add: sample_lib_def)
  show ?thesis
    using create_and_call_valid [of sample_lib "()" "Str ''GET_POSTS''"
        "sample_constants ''GET_POSTS''" "fn_get_posts p" "[]" _ None, OF sample_valid fn mr]
    by (simp add: ns cr get_posts_def sample_constants_def prop_of_def lookup_def)
qed

lemma get_posts_async: "async_action sample_env (get_posts p)"
  by (simp add: async_action_def get_posts_def prop_of_def lookup_def sample_env_def)

lemma get_posts_type: "prop_of (get_posts p) ''type'' = namespace sample_env"
  by (simp add: get_posts_def prop_of_def lookup_def sample_env_def)

lemma ids_fresh_init: "ids_fresh init_store"
  by (simp add: ids_fresh_def init_store_def)

lemma always_not_skipped: "\<not> skips sample_env st (get_posts ''always'')"
  by (simp add: skips_def get_posts_def prop_of_def lookup_def sample_env_def sample_app_def)

lemma never_skipped: "skips sample_env st (get_posts ''never'')"
  by (simp add: skips_def get_posts_def prop_of_def lookup_def sample_env_def sample_app_def)

lemma plain_run:
  "run sample_env (started sample_env init_store (get_posts ''always'') 1) [Dispatch plain_action 2]
     = Inr (reduce sample_env (started sample_env init_store (get_posts ''always'') 1) plain_action)"
  by (simp add: on_dispatch_def plain_action_def prop_of_def lookup_def sample_env_def)

subsection \<open>The lifecycle of a request\<close>

text \<open>
  C1. An async action is dispatched through the middleware, its request is made, and its
  promise resolves with \<open>resp\<close> after any events \<open>mid\<close> that do not settle it and that
  throw nothing. Then the
  whole run succeeds, the middleware dispatches the start action before the success action
  (what the events in between dispatch lies between the two), and the payload of the
  success action is \<^verbatim>\<open>parseSuccess\<close> applied to \<open>resp\<close> (\<open>resp\<close> itself when the action
  has no \<^verbatim>\<open>parseSuccess\<close>).
\<close>

theorem start_then_success:
  assumes "ids_fresh st" and "async_action E a" and "\<not> skips E st a"
    and "\<not> list_ex (settles (next_asyncID st)) mid"
    and "run E (started E st a t0) mid = Inr st2"
  shows "\<exists>more st3.
      run E st (Dispatch a t0 # mid @ [Settle (next_asyncID st) (Resolved resp) t1]) = Inr st3
      \<and> dispatched st2 = dispatched st @ [start_action E a (next_asyncID st) t0] @ more
      \<and> dispatched st3 = dispatched st2 @ [success_action E a (next_asyncID st) t0 t1 resp]
      \<and> prop_of (success_action E a (next_asyncID st) t0 t1 resp) ''payload''
          = parse E a ''parseSuccess'' resp
      \<and> prop_of (start_action E a (next_asyncID st) t0) ''type''
          = creator_type (prop_of a ''startActionCreator'')
      \<and> prop_of (success_action E a (next_asyncID st) t0 t1 resp) ''type''
          = creator_type (prop_of a ''successActionCreator'')"
proof -
  let ?i = "next_asyncID st"
  let ?st1 = "started E st a t0"
  let ?st3 = "(reduce E st2 (success_action E a ?i t0 t1 resp))
                \<lparr>in_flight := filter (\<lambda>(j, r). j \<noteq> ?i) (in_flight st2)\<rparr>"
  have d: "on_dispatch E st a t0 = Inr ?st1"
    using assms(2,3) by (rule on_dispatch_async)
  have f: "map_of (in_flight ?st1) ?i = Some (a, t0)"
    using assms(1) by (rule in_flight_started)
  from run_keeps_request [OF f assms(4,5)]
  obtain more where f2: "map_of (in_flight st2) ?i = Some (a, t0)"
    and d2: "dispatched st2 = dispatched ?st1 @ more" by blast
  have s: "on_settle E st2 ?i (Resolved resp) t1 = Inr ?st3"
    using f2 assms(2) by (rule on_settle_resolved)
  have r: "run E st (Dispatch a t0 # mid @ [Settle ?i (Resolved resp) t1]) = Inr ?st3"
    by (simp add: d run_append assms(5) s)
  have d3: "dispatched ?st3 = dispatched st2 @ [success_action E a ?i t0 t1 resp]"
    by (simp add: reduce_def)
  have p: "prop_of (success_action E a ?i t0 t1 resp) ''payload'' = parse E a ''parseSuccess'' resp"
    "prop_of (start_action E a ?i t0) ''type'' = creator_type (prop_of a ''startActionCreator'')"
    "prop_of (success_action E a ?i t0 t1 resp) ''type''
       = creator_type (prop_of a ''successActionCreator'')"
    using assms(2)
    by (simp_all add: success_action_def start_action_def async_action_def action_creator_fields)
  from r d2 d3 p show ?thesis
    by (auto simp: dispatched_started)
qed

text \<open>The theorem at a store that starts empty: the request, a \<^verbatim>\<open>LOGOUT\<close> action of the
  application, then the settlement.\<close>

theorem start_then_success_witness:
  "\<exists>more st3.
      run sample_env init_store
        [Dispatch (get_posts ''always'') 1, Dispatch plain_action 2, Settle 0 (Resolved (Num 5)) 3]
        = Inr st3
      \<and> dispatched (reduce sample_env (started sample_env init_store (get_posts ''always'') 1)
            plain_action)
          = [start_action sample_env (get_posts ''always'') 0 1] @ more
      \<and> dispatched st3
          = dispatched (reduce sample_env (started sample_env init_store (get_posts ''always'') 1)
              plain_action)
            @ [success_action sample_env (get_posts ''always'') 0 1 3 (Num 5)]
      \<and> prop_of (success_action sample_env (get_posts ''always'') 0 1 3 (Num 5)) ''payload''
          = Obj [(''data'', Num 5)]
      \<and> prop_of (start_action sample_env (get_posts ''always'') 0 1) ''type''
          = Str ''GET_POSTS_START''
      \<and> prop_of (success_action sample_env (get_posts ''always'') 0 1 3 (Num 5)) ''type''
          = Str ''GET_POSTS_SUCCESS''"
proof -
  have n: "next_asyncID init_store = 0" "dispatched init_store = []"
    by (simp_all add: init_store_def)
  have m: "\<not> list_ex (settles (next_asyncID init_store)) [Dispatch plain_action 2]"
    by simp
  have v: "parse sample_env (get_posts ''always'') ''parseSuccess'' (Num 5) = Obj [(''data'', Num 5)]"
    "creator_type (prop_of (get_posts ''always'') ''startActionCreator'') = Str ''GET_POSTS_START''"
    "creator_type (prop_of (get_posts ''always'') ''successActionCreator'') = Str ''GET_POSTS_SUCCESS''"
    by (simp_all add: parse_def get_posts_def prop_of_def lookup_def sample_env_def sample_app_def
        arg_def)
  show ?thesis
    using start_then_success [OF ids_fresh_init get_posts_async always_not_skipped m plain_run,
        of "Num 5" 3]
    by (simp add: n v)
qed

text \<open>
  C2. The same request with a promise that rejects with \<open>err\<close>. The rejection is not thrown:
  the run succeeds. The middleware dispatches the start action and then, at the settlement,
  the fail action and nothing else; its payload is \<^verbatim>\<open>parseFail\<close> applied to \<open>err\<close>. The
  request is no longer in flight, so no later settlement dispatches a success action for
  it.
\<close>

theorem start_then_fail:
  assumes "ids_fresh st" and "async_action E a" and "\<not> skips E st a"
    and "\<not> list_ex (settles (next_asyncID st)) mid"
    and "run E (started E st a t0) mid = Inr st2"
  shows "\<exists>more st3.
      run E st (Dispatch a t0 # mid @ [Settle (next_asyncID st) (Rejected err) t1]) = Inr st3
      \<and> dispatched st2 = dispatched st @ [start_action E a (next_asyncID st) t0] @ more
      \<and> dispatched st3 = dispatched st2 @ [fail_action E a (next_asyncID st) t0 t1 err]
      \<and> prop_of (fail_action E a (next_asyncID st) t0 t1 err) ''payload''
          = parse E a ''parseFail'' err
      \<and> prop_of (fail_action E a (next_asyncID st) t0 t1 err) ''type''
          = creator_type (prop_of a ''failActionCreator'')
      \<and> prop_of (prop_of (fail_action E a (next_asyncID st) t0 t1 err) ''meta'') ''asyncType''
          = Str ''fail''
      \<and> on_settle E st3 (next_asyncID st) s t2 = Inr st3"
proof -
  let ?i = "next_asyncID st"
  let ?st1 = "started E st a t0"
  let ?st3 = "(reduce E st2 (fail_action E a ?i t0 t1 err))
                \<lparr>in_flight := filter (\<lambda>(j, r). j \<noteq> ?i) (in_flight st2)\<rparr>"
  have d: "on_dispatch E st a t0 = Inr ?st1"
    using assms(2,3) by (rule on_dispatch_async)
  have f: "map_of (in_flight ?st1) ?i = Some (a, t0)"
    using assms(1) by (rule in_flight_started)
  from run_keeps_request [OF f assms(4,5)]
  obtain more where f2: "map_of (in_flight st2) ?i = Some (a, t0)"
    and d2: "dispatched st2 = dispatched ?st1 @ more" by blast
  have s: "on_settle E st2 ?i (Rejected err) t1 = Inr ?st3"
    using f2 assms(2) by (rule on_settle_rejected)
  have r: "run E st (Dispatch a t0 # mid @ [Settle ?i (Rejected err) t1]) = Inr ?st3"
    by (simp add: d run_append assms(5) s)
  have d3: "dispatched ?st3 = dispatched st2 @ [fail_action E a ?i t0 t1 err]"
    by (simp add: reduce_def)
  have p: "prop_of (fail_action E a ?i t0 t1 err) ''payload'' = parse E a ''parseFail'' err"
    "prop_of (fail_action E a ?i t0 t1 err) ''type'' = creator_type (prop_of a ''failActionCreator'')"
    "prop_of (prop_of (fail_action E a ?i t0 t1 err) ''meta'') ''asyncType'' = Str ''fail''"
    using assms(2)
    by (simp_all add: fail_action_def async_action_def action_creator_fields end_meta_def
        prop_of_Obj lookup_append lookup_Cons)
  have gone: "on_settle E ?st3 ?i s t2 = Inr ?st3"
    by (rule on_settle_absent) (simp add: reduce_def map_of_filter_same)
  from r d2 d3 p gone show ?thesis
    by (auto simp: dispatched_started)
qed

text \<open>The same run with a rejection; a later resolution of the same request changes
  nothing.\<close>

theorem start_then_fail_witness:
  "\<exists>more st3.
      run sample_env init_store
        [Dispatch (get_posts ''always'') 1, Dispatch plain_action 2,
         Settle 0 (Rejected (Str ''timeout'')) 3]
        = Inr st3
      \<and> dispatched (reduce sample_env (started sample_env init_store (get_posts ''always'') 1)
            plain_action)
          = [start_action sample_env (get_posts ''always'') 0 1] @ more
      \<and> dispatched st3
          = dispatched (reduce sample_env (started sample_env init_store (get_posts ''always'') 1)
              plain_action)
            @ [fail_action sample_env (get_posts ''always'') 0 1 3 (Str ''timeout'')]
      \<and> prop_of (fail_action sample_env (get_posts ''always'') 0 1 3 (Str ''timeout'')) ''payload''
          = Obj [(''data'', Str ''timeout'')]
      \<and> prop_of (fail_action sample_env (get_posts ''always'') 0 1 3 (Str ''timeout'')) ''type''
          = Str ''GET_POSTS_FAIL''
      \<and> on_settle sample_env st3 0 (Resolved (Num 5)) 4 = Inr st3"
proof -
  have n: "next_asyncID init_store = 0" "dispatched init_store = []"
    by (simp_all add: init_store_def)
  have m: "\<not> list_ex (settles (next_asyncID init_store)) [Dispatch plain_action 2]"
    by simp
  have v: "parse sample_env (get_posts ''always'') ''parseFail'' (Str ''timeout'')
             = Obj [(''data'', Str ''timeout'')]"
    "creator_type (prop_of (get_posts ''always'') ''failActionCreator'') = Str ''GET_POSTS_FAIL''"
    by (simp_all add: parse_def get_posts_def prop_of_def lookup_def sample_env_def sample_app_def
        arg_def)
  show ?thesis
    using start_then_fail [OF ids_fresh_init get_posts_async always_not_skipped m plain_run,
        of "Str ''timeout''" 3 "Resolved (Num 5)" 4]
    by (simp add: n v) blast
qed

text \<open>
  C3. An async action whose \<^verbatim>\<open>shouldMakeRequest\<close> returns false on the current state of
  the store: the dispatch leaves the store as it was. No start action is dispatched and no
  request is in flight, and every later run is the run without this dispatch, so no success
  or fail action comes of it.
\<close>

theorem skipped_request_dispatches_nothing:
  assumes "prop_of a ''type'' = namespace E" and "skips E st a"
  shows "on_dispatch E st a now = Inr st
       \<and> run E st (Dispatch a now # evs) = run E st evs"
  using assms by (simp add: on_dispatch_def)

text \<open>The theorem at the predicate \<^verbatim>\<open>state => false\<close>.\<close>

theorem skipped_request_dispatches_nothing_witness:
  "on_dispatch sample_env init_store (get_posts ''never'') 1 = Inr init_store
   \<and> run sample_env init_store
       [Dispatch (get_posts ''never'') 1, Settle 0 (Resolved (Num 5)) 2]
     = Inr init_store"
  using skipped_request_dispatches_nothing [of "get_posts ''never''" sample_env init_store 1
      "[Settle 0 (Resolved (Num 5)) 2]", OF get_posts_type never_skipped]
  by (simp add: on_settle_def init_store_def)

end
